theory Spec2Isabelle
  imports Main "HOL-Library.Sublist" "HOL-Library.Char_ord"
begin

section \<open>Parsers for the output of Cisco show commands\<close>

text \<open>
  The package runs a \<open>show\<close> command on a switch over SSH and parses the text the device
  prints into records. This theory models the parsers: each takes the output of one
  command as a string and returns records or an error. The functions \<open>Show_...\<close> are
  modelled from the point where \<open>RunCommand\<close> has returned, as functions of its result.
\<close>

section \<open>Go strings\<close>

text \<open>
  A Go string is a sequence of bytes, here a \<^typ>\<open>string\<close> (a list of 8-bit characters);
  \<open>len\<close> is \<^const>\<open>length\<close> and counts bytes. The functions of Go's package
  \<open>strings\<close> that the parsers call are written out below, each under its Go name.
\<close>

abbreviation newline :: char where
  "newline \<equiv> CHR 0x0A"

subsection \<open>White space\<close>

text \<open>
  \<open>strings.TrimSpace\<close> and \<open>strings.Fields\<close> use \<open>unicode.IsSpace\<close>: the six ASCII
  characters tab, line feed, vertical tab, form feed, carriage return and space, and the
  code points U+0085, U+00A0, U+1680, U+2000 to U+200A, U+2028, U+2029, U+202F, U+205F and
  U+3000, which occupy two or three bytes in UTF-8.
\<close>

definition asciiSpace :: "char \<Rightarrow> bool" where
  "asciiSpace c \<longleftrightarrow>
     c = CHR 0x09 \<or> c = CHR 0x0A \<or> c = CHR 0x0B \<or> c = CHR 0x0C \<or> c = CHR 0x0D \<or> c = CHR 0x20"

definition unicodeSpaces :: "string list" where
  "unicodeSpaces =
    [[CHR 0xC2, CHR 0x85], [CHR 0xC2, CHR 0xA0], [CHR 0xE1, CHR 0x9A, CHR 0x80],
     [CHR 0xE2, CHR 0x80, CHR 0x80], [CHR 0xE2, CHR 0x80, CHR 0x81],
     [CHR 0xE2, CHR 0x80, CHR 0x82], [CHR 0xE2, CHR 0x80, CHR 0x83],
     [CHR 0xE2, CHR 0x80, CHR 0x84], [CHR 0xE2, CHR 0x80, CHR 0x85],
     [CHR 0xE2, CHR 0x80, CHR 0x86], [CHR 0xE2, CHR 0x80, CHR 0x87],
     [CHR 0xE2, CHR 0x80, CHR 0x88], [CHR 0xE2, CHR 0x80, CHR 0x89],
     [CHR 0xE2, CHR 0x80, CHR 0x8A], [CHR 0xE2, CHR 0x80, CHR 0xA8],
     [CHR 0xE2, CHR 0x80, CHR 0xA9], [CHR 0xE2, CHR 0x80, CHR 0xAF],
     [CHR 0xE2, CHR 0x81, CHR 0x9F], [CHR 0xE3, CHR 0x80, CHR 0x80]]"

text \<open>The number of bytes of the white-space character a string starts with, 0 if none.\<close>

definition spaceWidth :: "string \<Rightarrow> nat" where
  "spaceWidth s =
     (case s of
        [] \<Rightarrow> 0
      | c # _ \<Rightarrow>
          if asciiSpace c then 1
          else (case find (\<lambda>u. prefix u s) unicodeSpaces of None \<Rightarrow> 0 | Some u \<Rightarrow> length u))"

text \<open>The number of bytes of the white-space character a string ends with, 0 if none.\<close>

definition spaceWidthEnd :: "string \<Rightarrow> nat" where
  "spaceWidthEnd s =
     (if s = [] then 0
      else if asciiSpace (last s) then 1
      else (case find (\<lambda>u. suffix u s) unicodeSpaces of None \<Rightarrow> 0 | Some u \<Rightarrow> length u))"

lemma spaceWidth_Nil [simp]: "spaceWidth [] = 0"
  by (simp add: spaceWidth_def)

lemma spaceWidthEnd_Nil [simp]: "spaceWidthEnd [] = 0"
  by (simp add: spaceWidthEnd_def)

function trimLeftSpace :: "string \<Rightarrow> string" where
  "trimLeftSpace s = (if spaceWidth s = 0 then s else trimLeftSpace (drop (spaceWidth s) s))"
  by pat_completeness auto
termination
proof (relation "measure length")
  show "wf (measure length)" by simp
next
  fix s :: string
  assume "spaceWidth s \<noteq> 0"
  then have "s \<noteq> []" by auto
  with \<open>spaceWidth s \<noteq> 0\<close> show "(drop (spaceWidth s) s, s) \<in> measure length"
    by (cases s) auto
qed

function trimRightSpace :: "string \<Rightarrow> string" where
  "trimRightSpace s =
     (if spaceWidthEnd s = 0 then s else trimRightSpace (take (length s - spaceWidthEnd s) s))"
  by pat_completeness auto
termination
proof (relation "measure length")
  show "wf (measure length)" by simp
next
  fix s :: string
  assume "spaceWidthEnd s \<noteq> 0"
  then have "s \<noteq> []" by auto
  with \<open>spaceWidthEnd s \<noteq> 0\<close> show "(take (length s - spaceWidthEnd s) s, s) \<in> measure length"
    by (cases s) auto
qed

declare trimLeftSpace.simps [simp del] trimRightSpace.simps [simp del]

definition TrimSpace :: "string \<Rightarrow> string" where
  "TrimSpace s = trimRightSpace (trimLeftSpace s)"

text \<open>
  \<open>strings.Fields\<close>: the maximal runs of characters that are not white space. The first
  argument of the loop is the field being read.
\<close>

function fieldsLoop :: "string \<Rightarrow> string \<Rightarrow> string list" where
  "fieldsLoop cur [] = (if cur = [] then [] else [cur])"
| "fieldsLoop cur (c # cs) =
     (if spaceWidth (c # cs) = 0 then fieldsLoop (cur @ [c]) cs
      else (if cur = [] then [] else [cur]) @ fieldsLoop [] (drop (spaceWidth (c # cs)) (c # cs)))"
  by pat_completeness auto
termination
  by (relation "measure (\<lambda>(cur, s). length s)") auto

definition Fields :: "string \<Rightarrow> string list" where
  "Fields s = fieldsLoop [] s"

subsection \<open>Searching, splitting and joining\<close>

definition HasPrefix :: "string \<Rightarrow> string \<Rightarrow> bool" where
  "HasPrefix s p = prefix p s"

primrec Contains :: "string \<Rightarrow> string \<Rightarrow> bool" where
  "Contains [] sub = (sub = [])"
| "Contains (c # cs) sub = (prefix sub (c # cs) \<or> Contains cs sub)"

text \<open>\<open>strings.Index\<close>: the offset of the first occurrence, \<open>None\<close> for Go's \<open>-1\<close>.\<close>

primrec Index :: "string \<Rightarrow> string \<Rightarrow> nat option" where
  "Index [] sub = (if sub = [] then Some 0 else None)"
| "Index (c # cs) sub = (if prefix sub (c # cs) then Some 0 else map_option Suc (Index cs sub))"

text \<open>
  \<open>strings.Split(s, sep)\<close> for a separator of one byte, as in every call of the program
  (line feed and comma). The result is never empty.
\<close>

primrec Split :: "string \<Rightarrow> char \<Rightarrow> string list" where
  "Split [] sep = [[]]"
| "Split (c # cs) sep =
     (if c = sep then [] # Split cs sep
      else (case Split cs sep of [] \<Rightarrow> [[c]] | l # ls \<Rightarrow> (c # l) # ls))"

primrec Join :: "string list \<Rightarrow> string \<Rightarrow> string" where
  "Join [] sep = []"
| "Join (x # xs) sep = (if xs = [] then x else x @ sep @ Join xs sep)"

text \<open>\<open>strings.TrimRight(s, "\r")\<close>: every trailing carriage return removed.\<close>

definition TrimRightCR :: "string \<Rightarrow> string" where
  "TrimRightCR s = rev (dropWhile (\<lambda>c. c = CHR 0x0D) (rev s))"

text \<open>
  A slice expression \<open>s[lo:hi]\<close> panics unless \<open>lo \<le> hi \<le> len(s)\<close>; \<open>s[lo:]\<close> is
  \<open>s[lo:len(s)]\<close>.
\<close>

definition slice :: "string \<Rightarrow> nat \<Rightarrow> nat \<Rightarrow> string option" where
  "slice s lo hi = (if lo \<le> hi \<and> hi \<le> length s then Some (take (hi - lo) (drop lo s)) else None)"

definition sliceFrom :: "string \<Rightarrow> nat \<Rightarrow> string option" where
  "sliceFrom s lo = slice s lo (length s)"

section \<open>Regular expressions\<close>

text \<open>
  Go's package \<open>regexp\<close> returns the match that a backtracking search finds first: the
  leftmost start, and at that start the alternatives of \<open>|\<close> in order, a greedy
  repetition as long as possible first, a lazy one as short as possible first. A pattern
  is a term of type \<open>re\<close>; \<open>rematch\<close> lists, in that order of preference, the states
  a match of the pattern can end in. A state is the offset in the text, the rest of the
  text and the texts of the capture groups, numbered from 0 (an unset group is the empty
  string, as in the slice \<open>FindStringSubmatch\<close> returns). Without the flag \<open>m\<close>,
  \<open>^\<close> and \<open>$\<close> match at the two ends of the text only.

  An atom consumes a number of bytes at the head of the rest of the text (0: no match).
  The patterns of the program name ASCII characters only, and a text is matched byte by
  byte: a byte above 0x7F belongs to \<open>.\<close>, \<open>\S\<close> and the negated classes, as the code
  point it is part of does. Under the flag \<open>i\<close> a class that holds k or s also holds
  U+212A and U+017F, which Go folds to them. Every repetition of the program has a body
  that cannot match the empty string; \<open>rematch\<close> discards an iteration that consumes
  nothing.
\<close>

datatype re =
    Eps
  | Atom "string \<Rightarrow> nat"
  | Bol
  | Eol
  | Cat re re
  | Alt re re
  | Star re
  | Lazy re
  | Grp nat re

type_synonym mstate = "nat \<times> string \<times> string list"

fun rematch :: "re \<Rightarrow> mstate \<Rightarrow> mstate list" where
  "rematch Eps st = [st]"
| "rematch (Atom f) (i, s, caps) =
     (if f s = 0 \<or> length s < f s then [] else [(i + f s, drop (f s) s, caps)])"
| "rematch Bol (i, s, caps) = (if i = 0 then [(i, s, caps)] else [])"
| "rematch Eol (i, s, caps) = (if s = [] then [(i, s, caps)] else [])"
| "rematch (Cat a b) st = concat (map (rematch b) (rematch a st))"
| "rematch (Alt a b) st = rematch a st @ rematch b st"
| "rematch (Star a) (i, s, caps) =
     concat (map (\<lambda>st'. if length (fst (snd st')) < length s then rematch (Star a) st' else [])
               (rematch a (i, s, caps))) @ [(i, s, caps)]"
| "rematch (Lazy a) (i, s, caps) =
     (i, s, caps) #
     concat (map (\<lambda>st'. if length (fst (snd st')) < length s then rematch (Lazy a) st' else [])
               (rematch a (i, s, caps)))"
| "rematch (Grp n a) (i, s, caps) =
     map (\<lambda>st'. (fst st', fst (snd st'), (snd (snd st'))[n := take (fst st' - i) s]))
       (rematch a (i, s, caps))"

text \<open>
  The search from offset \<open>i\<close>, for a pattern with \<open>n\<close> groups: the whole match followed
  by the groups, \<open>None\<close> for the nil slice of no match.
\<close>

primrec research :: "re \<Rightarrow> nat \<Rightarrow> nat \<Rightarrow> string \<Rightarrow> string list option" where
  "research r n i [] =
     (case rematch r (i, [], replicate n []) of
        [] \<Rightarrow> None
      | st # _ \<Rightarrow> Some ([] # snd (snd st)))"
| "research r n i (c # cs) =
     (case rematch r (i, c # cs, replicate n []) of
        [] \<Rightarrow> research r n (i + 1) cs
      | st # _ \<Rightarrow> Some (take (fst st - i) (c # cs) # snd (snd st)))"

text \<open>A compiled expression: the pattern and its number of capture groups.\<close>

type_synonym regexp = "re \<times> nat"

definition FindStringSubmatch :: "regexp \<Rightarrow> string \<Rightarrow> string list option" where
  "FindStringSubmatch rx s = research (fst rx) (snd rx) 0 s"

definition MatchString :: "regexp \<Rightarrow> string \<Rightarrow> bool" where
  "MatchString rx s \<longleftrightarrow> FindStringSubmatch rx s \<noteq> None"

subsection \<open>Pattern syntax\<close>

definition cls :: "(char \<Rightarrow> bool) \<Rightarrow> re" where
  "cls p = Atom (\<lambda>s. case s of [] \<Rightarrow> 0 | c # _ \<Rightarrow> if p c then 1 else 0)"

text \<open>ASCII case mapping: the character at the same place of the second string.\<close>

fun translate :: "string \<Rightarrow> string \<Rightarrow> char \<Rightarrow> char" where
  "translate (a # as) (b # bs) c = (if c = a then b else translate as bs c)"
| "translate _ _ c = c"

definition toLower :: "char \<Rightarrow> char" where
  "toLower = translate ''ABCDEFGHIJKLMNOPQRSTUVWXYZ'' ''abcdefghijklmnopqrstuvwxyz''"

definition toUpper :: "char \<Rightarrow> char" where
  "toUpper = translate ''abcdefghijklmnopqrstuvwxyz'' ''ABCDEFGHIJKLMNOPQRSTUVWXYZ''"

text \<open>A class under the flag \<open>i\<close>.\<close>

definition clsi :: "(char \<Rightarrow> bool) \<Rightarrow> re" where
  "clsi p =
     Atom (\<lambda>s. case s of
                 [] \<Rightarrow> 0
               | c # _ \<Rightarrow>
                   if p c \<or> p (toLower c) \<or> p (toUpper c) then 1
                   else if (p CHR ''k'' \<or> p CHR ''K'') \<and> prefix [CHR 0xE2, CHR 0x84, CHR 0xAA] s then 3
                   else if (p CHR ''s'' \<or> p CHR ''S'') \<and> prefix [CHR 0xC5, CHR 0xBF] s then 2
                   else 0)"

definition seq :: "re list \<Rightarrow> re" where
  "seq rs = foldr Cat rs Eps"

definition alts :: "re list \<Rightarrow> re" where
  "alts rs = foldr Alt (butlast rs) (last rs)"

definition lit :: "string \<Rightarrow> re" where
  "lit s = seq (map (\<lambda>c. cls (\<lambda>x. x = c)) s)"

definition liti :: "string \<Rightarrow> re" where
  "liti s = seq (map (\<lambda>c. clsi (\<lambda>x. x = c)) s)"

definition plus :: "re \<Rightarrow> re" where
  "plus r = Cat r (Star r)"

definition opt :: "re \<Rightarrow> re" where
  "opt r = Alt r Eps"

definition digitChar :: "char \<Rightarrow> bool" where
  "digitChar c \<longleftrightarrow> c \<in> set ''0123456789''"

definition wordChar :: "char \<Rightarrow> bool" where
  "wordChar c \<longleftrightarrow>
     c \<in> set ''0123456789ABCDEFGHIJKLMNOPQRSTUVWXYZ_abcdefghijklmnopqrstuvwxyz''"

text \<open>The class \<open>\s\<close> of Go's syntax: tab, line feed, form feed, carriage return, space.\<close>

definition reSpace :: "char \<Rightarrow> bool" where
  "reSpace c \<longleftrightarrow> c = CHR 0x09 \<or> c = CHR 0x0A \<or> c = CHR 0x0C \<or> c = CHR 0x0D \<or> c = CHR 0x20"

definition ws :: re where "ws = cls reSpace"
definition nonws :: re where "nonws = cls (\<lambda>c. \<not> reSpace c)"
definition digit :: re where "digit = cls digitChar"
definition dot :: re where "dot = cls (\<lambda>c. c \<noteq> newline)"
definition anyChar :: re where "anyChar = cls (\<lambda>c. True)"

section \<open>The interface-name normalizer\<close>

text \<open>
  \<open>strings.NewReplacer\<close> with keys longer than one byte builds the generic replacer: it
  walks the string from the left; at each offset the first key, in argument order, that
  the rest of the string starts with is replaced and skipped, and where no key matches
  one byte is copied. No key of the table is empty.
\<close>

definition replacerTable :: "(string \<times> string) list" where
  "replacerTable =
    [(''AppGigabitEthernet'', ''Ap''),
     (''FastEthernet'', ''Fa''),
     (''GigabitEthernet'', ''Gi''),
     (''FiveGigabitEthernet'', ''Fi''),
     (''FiveGi'', ''Fi''),
     (''TenGigabitEthernet'', ''Te''),
     (''TenGi'', ''Te''),
     (''Ten'', ''Te''),
     (''TwentyGigabitEthernet'', ''Twe''),
     (''TwentyFiveGigE'', ''Twe''),
     (''TwentyFigE'', ''Twe''),
     (''FortyGigabitEthernet'', ''Fo''),
     (''FortyGi'', ''Fo''),
     (''HundredGigE'', ''Hu''),
     (''Gig'', ''Gi'')]"

definition replacerLookup :: "(string \<times> string) list \<Rightarrow> string \<Rightarrow> (string \<times> string) option" where
  "replacerLookup tbl s = find (\<lambda>kv. fst kv \<noteq> [] \<and> prefix (fst kv) s) tbl"

function Replace :: "(string \<times> string) list \<Rightarrow> string \<Rightarrow> string" where
  "Replace tbl [] = []"
| "Replace tbl (c # cs) =
     (case replacerLookup tbl (c # cs) of
        None \<Rightarrow> c # Replace tbl cs
      | Some kv \<Rightarrow> snd kv @ Replace tbl (drop (length (fst kv)) (c # cs)))"
  by pat_completeness auto
termination
proof (relation "measure (\<lambda>(tbl, s). length s)")
  show "wf (measure (\<lambda>(tbl, s). length s))" by simp
next
  fix tbl :: "(string \<times> string) list" and c cs
  show "((tbl, cs), (tbl, c # cs)) \<in> measure (\<lambda>(tbl, s). length s)" by simp
next
  fix tbl :: "(string \<times> string) list" and c cs kv
  assume "replacerLookup tbl (c # cs) = Some kv"
  then have "fst kv \<noteq> []"
    by (auto simp: replacerLookup_def find_Some_iff)
  then have "0 < length (fst kv)" by simp
  then show "((tbl, drop (length (fst kv)) (c # cs)), (tbl, c # cs)) \<in> measure (\<lambda>(tbl, s). length s)"
    by simp
qed

text \<open>\<open>strings.ReplaceAll(name, " ", "")\<close> deletes every space.\<close>

definition stripSpaces :: "string \<Rightarrow> string" where
  "stripSpaces name = filter (\<lambda>c. c \<noteq> CHR '' '') name"

definition normalizeInterfaceName :: "string \<Rightarrow> string" where
  "normalizeInterfaceName name = Replace replacerTable (stripSpaces name)"

text \<open>No key of the replacer table occurs anywhere in the string.\<close>

primrec noAlias :: "string \<Rightarrow> bool" where
  "noAlias [] = True"
| "noAlias (c # cs) = (replacerLookup replacerTable (c # cs) = None \<and> noAlias cs)"

section \<open>Failures\<close>

text \<open>
  A Go function returning \<open>(T, error)\<close> is a function into \<open>error + T\<close>. Each error the
  parsers build with \<open>fmt.Errorf\<close> is a constructor; \<open>Wrapped\<close> is an error formatted
  into a new one by a caller, \<open>Transport\<close> an error of \<open>RunCommand\<close>, and \<open>Panic\<close> the
  run-time panic of a slice expression out of range. A nil slice is the empty list.
\<close>

datatype error =
    Transport string
  | StatusHeaderNotFound
  | VlanHeaderNotFound
  | CdpHeaderColumns
  | LldpHeaderColumns
  | EssentialVersionInfo
  | NoPowerData
  | NoInterfaceConfigs
  | Wrapped error
  | Panic

text \<open>\<open>fields[lo:hi]\<close> on a slice of strings, used where the bounds are known to hold.\<close>

definition subFields :: "string list \<Rightarrow> nat \<Rightarrow> nat \<Rightarrow> string list" where
  "subFields fields lo hi = take (hi - lo) (drop lo fields)"

section \<open>show power inline\<close>

record PowerModuleInfo =
  Module :: string
  Available :: string
  Used :: string
  Remaining :: string

record PowerInterfaceInfo =
  Interface :: string
  Admin :: string
  Oper :: string
  Power :: string
  Device :: string
  Class :: string
  Max :: string

datatype powerSection = SectionNone | SectionModule | SectionInterface

text \<open>The variables the loop of \<open>parsePowerInline\<close> updates.\<close>

record powerState =
  currentSection :: powerSection
  modules :: "PowerModuleInfo list"
  interfaces :: "PowerInterfaceInfo list"

definition powerInit :: powerState where
  "powerInit = \<lparr>currentSection = SectionNone, modules = [], interfaces = []\<rparr>"

text \<open>One iteration of the loop over the lines.\<close>

definition powerStep :: "powerState \<Rightarrow> string \<Rightarrow> powerState" where
  "powerStep st line =
     (let fields = Fields line in
      if length fields = 0 then st\<lparr>currentSection := SectionNone\<rparr>
      else if fields ! 0 = ''Module'' then st\<lparr>currentSection := SectionModule\<rparr>
      else if fields ! 0 = ''Interface'' then st\<lparr>currentSection := SectionInterface\<rparr>
      else
        (case currentSection st of
           SectionModule \<Rightarrow>
             if length fields = 4 \<and> \<not> HasPrefix (fields ! 0) ''---'' then
               st\<lparr>modules := modules st @
                 [\<lparr>Module = fields ! 0, Available = fields ! 1,
                   Used = fields ! 2, Remaining = fields ! 3\<rparr>]\<rparr>
             else st
         | SectionInterface \<Rightarrow>
             if 6 \<le> length fields \<and> Contains (fields ! 0) ''/'' then
               st\<lparr>interfaces := interfaces st @
                 [\<lparr>PowerInterfaceInfo.Interface = fields ! 0, Admin = fields ! 1,
                   Oper = fields ! 2, Power = fields ! 3,
                   Device = Join (subFields fields 4 (length fields - 2)) '' '',
                   Class = fields ! (length fields - 2),
                   Max = fields ! (length fields - 1)\<rparr>]\<rparr>
             else st
         | SectionNone \<Rightarrow> st))"

definition powerLoop :: "powerState \<Rightarrow> string list \<Rightarrow> powerState" where
  "powerLoop st lines = foldl powerStep st lines"


text \<open>
  The tests the loop applies to the fields of a line: the two section keywords, and the
  shape of a data row in the Module and in the Interface section.
\<close>

definition keywordLine :: "string list \<Rightarrow> bool" where
  "keywordLine fs \<longleftrightarrow> fs ! 0 = ''Module'' \<or> fs ! 0 = ''Interface''"

definition moduleShape :: "string list \<Rightarrow> bool" where
  "moduleShape fs \<longleftrightarrow> length fs = 4 \<and> \<not> HasPrefix (fs ! 0) ''---''"

definition interfaceShape :: "string list \<Rightarrow> bool" where
  "interfaceShape fs \<longleftrightarrow> 6 \<le> length fs \<and> Contains (fs ! 0) ''/''"

definition interfaceRow :: "string list \<Rightarrow> PowerInterfaceInfo" where
  "interfaceRow fs =
     \<lparr>PowerInterfaceInfo.Interface = fs ! 0, Admin = fs ! 1, Oper = fs ! 2, Power = fs ! 3,
      Device = Join (subFields fs 4 (length fs - 2)) '' '',
      Class = fs ! (length fs - 2), Max = fs ! (length fs - 1)\<rparr>"

text \<open>Sample output of a two-member stack, one line per list element.\<close>

definition powerModuleLines :: "string list" where
  "powerModuleLines =
    [''Module   Available     Used     Remaining'',
     ''          (Watts)     (Watts)    (Watts)'',
     ''------   ---------   --------   ---------'',
     ''1           780.0      123.4       656.6'']"

definition powerInterfaceLines :: "string list" where
  "powerInterfaceLines =
    [''Interface Admin  Oper       Power   Device              Class Max'',
     ''                            (Watts)'',
     ''--------- ------ ---------- ------- ------------------- ----- ----'',
     ''Gi1/0/1   auto   on         6.3     IP Phone 7945       3     15.4'']"

section \<open>show interface status\<close>

record InterfaceStatus =
  Interface :: string
  Description :: string
  Status :: string
  VlanID :: string
  Duplex :: string
  Speed :: string
  Type :: string

text \<open>
  The header search of \<open>parseInterfaceStatus\<close> starts at index 1 and returns the index
  of the line after the first line that contains both \<open>Port\<close> and \<open>Vlan\<close>; \<open>None\<close> is
  the \<open>-1\<close> it starts with. The first argument is the index of the head of the list.
\<close>

primrec statusHeaderFrom :: "nat \<Rightarrow> string list \<Rightarrow> nat option" where
  "statusHeaderFrom i [] = None"
| "statusHeaderFrom i (l # ls) =
     (if Contains (TrimSpace l) ''Port'' \<and> Contains (TrimSpace l) ''Vlan'' then Some (i + 1)
      else statusHeaderFrom (i + 1) ls)"

definition statusDataStartIndex :: "string list \<Rightarrow> nat option" where
  "statusDataStartIndex lines = statusHeaderFrom 1 (drop 1 lines)"

definition isStatusWord :: "string \<Rightarrow> bool" where
  "isStatusWord s \<longleftrightarrow>
     s = ''connected'' \<or> s = ''notconnect'' \<or> s = ''disabled'' \<or> s = ''err-disabled'' \<or>
     s = ''suspended'' \<or> s = ''monitoring''"

text \<open>
  The body of the loop over the data lines: \<open>None\<close> where the source continues with the
  next line, the record it appends otherwise. The inner loop looks for the first status
  word at the indices from 1 to \<open>len(fields) - 5\<close>.
\<close>

definition parseStatusLine :: "string \<Rightarrow> InterfaceStatus option" where
  "parseStatusLine raw =
     (let line = TrimSpace raw in
      if line = [] \<or> HasPrefix line ''----'' \<or> HasPrefix line ''Name'' then None
      else
        let fields = Fields line in
        if length fields < 6 then None
        else
          (case find (\<lambda>j. isStatusWord (fields ! j)) [1..<length fields - 4] of
             None \<Rightarrow> None
           | Some statusIndex \<Rightarrow>
               Some \<lparr>InterfaceStatus.Interface = fields ! 0,
                     Description = Join (subFields fields 1 statusIndex) '' '',
                     Status = fields ! statusIndex,
                     VlanID = fields ! (statusIndex + 1),
                     Duplex = fields ! (statusIndex + 2),
                     Speed = fields ! (statusIndex + 3),
                     Type = Join (drop (statusIndex + 4) fields) '' ''\<rparr>))"

definition parseInterfaceStatus :: "string \<Rightarrow> error + InterfaceStatus list" where
  "parseInterfaceStatus rawOutput =
     (let lines = Split rawOutput newline in
      case statusDataStartIndex lines of
        None \<Rightarrow> Inl StatusHeaderNotFound
      | Some dataStartIndex \<Rightarrow>
          if length lines \<le> dataStartIndex then Inl StatusHeaderNotFound
          else Inr (List.map_filter parseStatusLine (drop dataStartIndex lines)))"

text \<open>
  \<open>Show_interfaces_status\<close>, as a function of what \<open>RunCommand\<close> returned: the parsed
  records as they are.
\<close>

definition Show_interfaces_status :: "error + string \<Rightarrow> error + InterfaceStatus list" where
  "Show_interfaces_status res =
     (case res of
        Inl err \<Rightarrow> Inl err
      | Inr outputString \<Rightarrow>
          (case parseInterfaceStatus outputString of
             Inl err \<Rightarrow> Inl err
           | Inr interfaceStatusList \<Rightarrow>
               if length interfaceStatusList = 0 then Inr [] else Inr interfaceStatusList))"

definition statusSample :: "string list" where
  "statusSample =
    [''show interface status'',
     ''Port      Name               Status       Vlan       Duplex  Speed Type'',
     ''Gi1/0/1  Uplink to core  connected  1  full  1000  10/100/1000BaseTX'',
     ''Name1/0/2  connected  1  full  1000  10/100/1000BaseTX'']"

section \<open>show lldp neighbors\<close>

record LldpNeighbor =
  Interface :: string
  Neighbor :: string
  NeighborInterface :: string
  HoldTime :: string
  Capability :: string

text \<open>The column offsets read from the header line.\<close>

record lldpColumns =
  deviceIDIndex :: nat
  localIntfIndex :: nat
  holdtmeIndex :: nat
  capabilityIndex :: nat
  portIDIndex :: nat

text \<open>
  The header search: the first line with the prefix \<open>Device ID\<close>, returned with the
  index of the line after it.
\<close>

primrec lldpHeaderFrom :: "nat \<Rightarrow> string list \<Rightarrow> (string \<times> nat) option" where
  "lldpHeaderFrom i [] = None"
| "lldpHeaderFrom i (l # ls) =
     (if HasPrefix l ''Device ID'' then Some (l, i + 1) else lldpHeaderFrom (i + 1) ls)"

text \<open>
  The body of the loop over the data lines: \<open>Inr None\<close> where the source continues with
  the next line, \<open>Inl Panic\<close> where one of the five slice expressions is out of range.
\<close>

definition lldpLine :: "lldpColumns \<Rightarrow> string \<Rightarrow> error + LldpNeighbor option" where
  "lldpLine cols raw =
     (let line = TrimRightCR raw in
      if TrimSpace line = [] \<or> Contains line ''Total entries displayed'' then Inr None
      else if length line < portIDIndex cols then Inr None
      else
        (case (slice line (localIntfIndex cols) (holdtmeIndex cols),
               slice line (deviceIDIndex cols) (localIntfIndex cols),
               sliceFrom line (portIDIndex cols),
               slice line (holdtmeIndex cols) (capabilityIndex cols),
               slice line (capabilityIndex cols) (portIDIndex cols)) of
           (Some interface, Some neighbor, Some neighborInterface, Some holdTime, Some capability) \<Rightarrow>
             Inr (Some \<lparr>LldpNeighbor.Interface = TrimSpace interface,
                        Neighbor = TrimSpace neighbor,
                        NeighborInterface = TrimSpace neighborInterface,
                        HoldTime = TrimSpace holdTime,
                        Capability = TrimSpace capability\<rparr>)
         | _ \<Rightarrow> Inl Panic))"

primrec lldpLoop :: "lldpColumns \<Rightarrow> LldpNeighbor list \<Rightarrow> string list \<Rightarrow> error + LldpNeighbor list" where
  "lldpLoop cols neighbors [] = Inr neighbors"
| "lldpLoop cols neighbors (l # ls) =
     (case lldpLine cols l of
        Inl err \<Rightarrow> Inl err
      | Inr None \<Rightarrow> lldpLoop cols neighbors ls
      | Inr (Some neighbor) \<Rightarrow> lldpLoop cols (neighbors @ [neighbor]) ls)"

definition parseLldpNeighbors :: "string \<Rightarrow> error + LldpNeighbor list" where
  "parseLldpNeighbors rawOutput =
     (let lines = Split rawOutput newline in
      case lldpHeaderFrom 0 lines of
        None \<Rightarrow> Inr []
      | Some (headerLine, dataStartIndex) \<Rightarrow>
          (case (Index headerLine ''Device ID'', Index headerLine ''Local Intf'',
                 Index headerLine ''Hold-time'', Index headerLine ''Capability'',
                 Index headerLine ''Port ID'') of
             (Some d, Some l, Some h, Some c, Some p) \<Rightarrow>
               lldpLoop \<lparr>deviceIDIndex = d, localIntfIndex = l, holdtmeIndex = h,
                          capabilityIndex = c, portIDIndex = p\<rparr> [] (drop dataStartIndex lines)
           | _ \<Rightarrow> Inl LldpHeaderColumns))"

text \<open>
  \<open>Show_lldp_neighbors\<close>, as a function of what \<open>RunCommand\<close> returned. An error of the
  parser is logged and leaves the nil slice; a panic is not caught.
\<close>

definition Show_lldp_neighbors :: "error + string \<Rightarrow> error + LldpNeighbor list" where
  "Show_lldp_neighbors res =
     (case res of
        Inl err \<Rightarrow> Inl err
      | Inr outputString \<Rightarrow>
          (case parseLldpNeighbors outputString of
             Inl Panic \<Rightarrow> Inl Panic
           | Inl err \<Rightarrow> Inr []
           | Inr lldp_neighbors_data \<Rightarrow>
               Inr (map (\<lambda>n. n\<lparr>LldpNeighbor.Interface := normalizeInterfaceName (LldpNeighbor.Interface n),
                                 NeighborInterface := normalizeInterfaceName (NeighborInterface n)\<rparr>)
                      lldp_neighbors_data)))"

definition lldpSample :: "string list" where
  "lldpSample =
    [''Device ID           Local Intf     Hold-time  Capability      Port ID'',
     ''switch-a            Gi1/0/1        120        B,R             Gi0/1'',
     ''ap-lobby'',
     '''',
     ''Total entries displayed: 1'']"

section \<open>show cdp neighbors\<close>

record CdpNeighbor =
  Neighbor :: string
  Interface :: string
  HoldTime :: string
  Capability :: string
  Platform :: string
  NeighborInterface :: string

record cdpColumns =
  localIntfIndex :: nat
  holdtmeIndex :: nat
  capabilityIndex :: nat
  platformIndex :: nat
  portIDIndex :: nat

text \<open>The variables the loop of \<open>parseCdpNeighbors\<close> updates.\<close>

record cdpState =
  neighbors :: "CdpNeighbor list"
  lastDeviceID :: string

text \<open>
  The header search: the first line that contains \<open>Device\<close> and \<open>Port ID\<close>, returned
  with its index.
\<close>

primrec cdpHeaderFrom :: "nat \<Rightarrow> string list \<Rightarrow> (string \<times> nat) option" where
  "cdpHeaderFrom i [] = None"
| "cdpHeaderFrom i (l # ls) =
     (if Contains l ''Device'' \<and> Contains l ''Port ID'' then Some (l, i)
      else cdpHeaderFrom (i + 1) ls)"

text \<open>
  The struct literal both kinds of record line build: five slice expressions of the line,
  each of which panics when out of range (\<open>None\<close>).
\<close>

definition cdpRecord :: "cdpColumns \<Rightarrow> string \<Rightarrow> string \<Rightarrow> CdpNeighbor option" where
  "cdpRecord cols deviceID line =
     (case (slice line (cdpColumns.localIntfIndex cols) (cdpColumns.holdtmeIndex cols),
            slice line (cdpColumns.holdtmeIndex cols) (cdpColumns.capabilityIndex cols),
            slice line (cdpColumns.capabilityIndex cols) (platformIndex cols),
            slice line (platformIndex cols) (cdpColumns.portIDIndex cols),
            sliceFrom line (cdpColumns.portIDIndex cols)) of
        (Some interface, Some holdTime, Some capability, Some platform, Some neighborInterface) \<Rightarrow>
          Some \<lparr>Neighbor = deviceID,
                CdpNeighbor.Interface = TrimSpace interface,
                HoldTime = TrimSpace holdTime,
                Capability = TrimSpace capability,
                Platform = TrimSpace platform,
                NeighborInterface = TrimSpace neighborInterface\<rparr>
      | _ \<Rightarrow> None)"

text \<open>One iteration of the loop over the data lines.\<close>

definition cdpStep :: "cdpColumns \<Rightarrow> cdpState \<Rightarrow> string \<Rightarrow> error + cdpState" where
  "cdpStep cols st line =
     (let trimmedLine = TrimSpace line in
      if trimmedLine = [] \<or> Contains trimmedLine ''Total cdp entries'' \<or>
         Contains trimmedLine ''Device-ID'' \<or> Contains trimmedLine ''---'' then Inr st
      else
        let isDetailLine =
          (cdpColumns.localIntfIndex cols < length line \<and>
           TrimSpace (take (cdpColumns.localIntfIndex cols) line) = [] \<and>
           TrimSpace (drop (cdpColumns.localIntfIndex cols) line) \<noteq> [])
        in
        if isDetailLine then
          if lastDeviceID st = [] then Inr st
          else if length line < cdpColumns.portIDIndex cols \<and> length line < platformIndex cols
          then Inr st
          else
            (case cdpRecord cols (lastDeviceID st) line of
               None \<Rightarrow> Inl Panic
             | Some neighbor \<Rightarrow>
                 Inr \<lparr>neighbors = neighbors st @ [neighbor], lastDeviceID = []\<rparr>)
        else if platformIndex cols \<le> length line then
          (let deviceID =
             (if cdpColumns.localIntfIndex cols < length line
              then TrimSpace (take (cdpColumns.localIntfIndex cols) line)
              else trimmedLine)
           in
           case cdpRecord cols deviceID line of
             None \<Rightarrow> Inl Panic
           | Some neighbor \<Rightarrow>
               Inr \<lparr>neighbors = neighbors st @ [neighbor], lastDeviceID = []\<rparr>)
        else Inr (st\<lparr>lastDeviceID := trimmedLine\<rparr>))"

primrec cdpLoop :: "cdpColumns \<Rightarrow> cdpState \<Rightarrow> string list \<Rightarrow> error + cdpState" where
  "cdpLoop cols st [] = Inr st"
| "cdpLoop cols st (l # ls) =
     (case cdpStep cols st l of Inl err \<Rightarrow> Inl err | Inr st' \<Rightarrow> cdpLoop cols st' ls)"

definition parseCdpNeighbors :: "string \<Rightarrow> error + CdpNeighbor list" where
  "parseCdpNeighbors rawOutput =
     (let lines = Split rawOutput newline in
      case cdpHeaderFrom 0 lines of
        None \<Rightarrow> Inr []
      | Some (headerLine, headerIndex) \<Rightarrow>
          (case (Index headerLine ''Local Intrfce'',
                 (case Index headerLine ''Hldtme'' of
                    None \<Rightarrow> Index headerLine ''Holdtme''
                  | Some h \<Rightarrow> Some h),
                 Index headerLine ''Capability'', Index headerLine ''Platform'',
                 Index headerLine ''Port ID'') of
             (Some l, Some h, Some c, Some pl, Some p) \<Rightarrow>
               (case cdpLoop \<lparr>localIntfIndex = l, holdtmeIndex = h, capabilityIndex = c,
                              platformIndex = pl, portIDIndex = p\<rparr>
                       \<lparr>neighbors = [], lastDeviceID = []\<rparr> (drop (headerIndex + 1) lines) of
                  Inl err \<Rightarrow> Inl err
                | Inr st \<Rightarrow> Inr (neighbors st))
           | _ \<Rightarrow> Inl CdpHeaderColumns))"

text \<open>
  \<open>Show_cdp_neighbors\<close>, as a function of what \<open>RunCommand\<close> returned. An error of the
  parser is logged and leaves the nil slice; a panic is not caught.
\<close>

definition Show_cdp_neighbors :: "error + string \<Rightarrow> error + CdpNeighbor list" where
  "Show_cdp_neighbors res =
     (case res of
        Inl err \<Rightarrow> Inl err
      | Inr outputString \<Rightarrow>
          (case parseCdpNeighbors outputString of
             Inl Panic \<Rightarrow> Inl Panic
           | Inl err \<Rightarrow> Inr []
           | Inr cdp_neighbors_data \<Rightarrow>
               Inr (map (\<lambda>n. n\<lparr>CdpNeighbor.Interface := normalizeInterfaceName (CdpNeighbor.Interface n),
                                 CdpNeighbor.NeighborInterface :=
                                   normalizeInterfaceName (CdpNeighbor.NeighborInterface n)\<rparr>)
                      cdp_neighbors_data)))"

text \<open>
  The blob of end-to-end case 1 as the specification writes it, and the same blob with
  the label \<open>Local Intrfce\<close> in the header, the columns at the same offsets.
\<close>

definition cdpCase1 :: string where
  "cdpCase1 =
     ''Device ID        Local Intf     Hldtme   Capability  Platform  Port ID'' @ [newline] @
     ''switch-core.local Gig 1/0/1      120      R S I       WS-C3850  Gig 1/0/24'' @ [newline]"

definition cdpCase1Intrfce :: string where
  "cdpCase1Intrfce =
     ''Device ID        Local Intrfce  Hldtme   Capability  Platform  Port ID'' @ [newline] @
     ''switch-core.local Gig 1/0/1      120      R S I       WS-C3850  Gig 1/0/24'' @ [newline]"

section \<open>show version\<close>

record VersionInfo =
  Hardware :: string
  Version :: string
  Release :: string
  SoftwareImage :: string
  SerialNumber :: string
  Uptime :: string
  Restarted :: string
  ReloadReason :: string
  Rommon :: string

text \<open>
  The nine expressions of the map \<open>regexes\<close>, all under the flag \<open>i\<close>, each with the
  Go pattern it is compiled from.
\<close>

text \<open>\<^verbatim>\<open>(?i)cisco ([\w-]+[a-z\d\-]+) .* processor|Board Type\s*:\s*(\S+)|Product\s*:\s*Cisco ([\w\s]+) Switch|cisco (Nexus\S+ [\w-]+ Chassis)|cisco ([\w-]+ Chassis)\<close>\<close>

definition reHardwareVersion :: regexp where
  "reHardwareVersion =
     (alts [seq [liti ''cisco '',
                 Grp 0 (seq [plus (clsi (\<lambda>c. wordChar c \<or> c = CHR ''-'')),
                             plus (clsi (\<lambda>c. c \<in> set ''abcdefghijklmnopqrstuvwxyz'' \<or> digitChar c \<or> c = CHR ''-''))]),
                 liti '' '', Star dot, liti '' processor''],
            seq [liti ''Board Type'', Star ws, liti '':'', Star ws, Grp 1 (plus nonws)],
            seq [liti ''Product'', Star ws, liti '':'', Star ws, liti ''Cisco '',
                 Grp 2 (plus (clsi (\<lambda>c. wordChar c \<or> reSpace c))), liti '' Switch''],
            seq [liti ''cisco '',
                 Grp 3 (seq [liti ''Nexus'', plus nonws, liti '' '',
                             plus (clsi (\<lambda>c. wordChar c \<or> c = CHR ''-'')), liti '' Chassis''])],
            seq [liti ''cisco '',
                 Grp 4 (seq [plus (clsi (\<lambda>c. wordChar c \<or> c = CHR ''-'')), liti '' Chassis''])]], 5)"

text \<open>\<^verbatim>\<open>(?i)Version ([^,]+),|NXOS:\s*version\s*(\S+).*|Active Image\s*:\s*.*?\nVersion\s*:\s*(\S+)|Software Version\s*:\s*(\S+)|system:\s*version\s*(\S+)\<close>\<close>

definition reVersion :: regexp where
  "reVersion =
     (alts [seq [liti ''Version '', Grp 0 (plus (cls (\<lambda>c. c \<noteq> CHR '',''))), liti '',''],
            seq [liti ''NXOS:'', Star ws, liti ''version'', Star ws, Grp 1 (plus nonws), Star dot],
            seq [liti ''Active Image'', Star ws, liti '':'', Star ws, Lazy dot, lit [newline],
                 liti ''Version'', Star ws, liti '':'', Star ws, Grp 2 (plus nonws)],
            seq [liti ''Software Version'', Star ws, liti '':'', Star ws, Grp 3 (plus nonws)],
            seq [liti ''system:'', Star ws, liti ''version'', Star ws, Grp 4 (plus nonws)]], 5)"

text \<open>\<^verbatim>\<open>(?i)Version [^,]+, (RELEASE SOFTWARE .*)\<close>\<close>

definition reRelease :: regexp where
  "reRelease =
     (seq [liti ''Version '', plus (cls (\<lambda>c. c \<noteq> CHR '','')), liti '', '',
           Grp 0 (seq [liti ''RELEASE SOFTWARE '', Star dot])], 1)"

text \<open>\<^verbatim>\<open>(?i)System image file is "([^"]+)"|NXOS image file is:\s*(\S+)|Active Image\s*:\s*([^\s(]+)|system image file is:\s*(\S+)\<close>\<close>

definition reSoftwareImage :: regexp where
  "reSoftwareImage =
     (alts [seq [liti ''System image file is '', lit [CHR 0x22],
                 Grp 0 (plus (cls (\<lambda>c. c \<noteq> CHR 0x22))), lit [CHR 0x22]],
            seq [liti ''NXOS image file is:'', Star ws, Grp 1 (plus nonws)],
            seq [liti ''Active Image'', Star ws, liti '':'', Star ws,
                 Grp 2 (plus (cls (\<lambda>c. \<not> reSpace c \<and> c \<noteq> CHR ''('')))],
            seq [liti ''system image file is:'', Star ws, Grp 3 (plus nonws)]], 4)"

text \<open>\<^verbatim>\<open>(?i)(?:System serial number\s*:\s*(\S+)|Processor board ID\s*(\S+)|MAC Address\s*:\s*(\S+)|Processor Board ID\s*(\S+))\<close>\<close>

definition reSerialNumber :: regexp where
  "reSerialNumber =
     (alts [seq [liti ''System serial number'', Star ws, liti '':'', Star ws, Grp 0 (plus nonws)],
            seq [liti ''Processor board ID'', Star ws, Grp 1 (plus nonws)],
            seq [liti ''MAC Address'', Star ws, liti '':'', Star ws, Grp 2 (plus nonws)],
            seq [liti ''Processor Board ID'', Star ws, Grp 3 (plus nonws)]], 4)"

text \<open>\<^verbatim>\<open>(?i)uptime is (.+)|System Uptime\s*:\s*(\S+)|Kernel uptime is (.+)\<close>\<close>

definition reUptime :: regexp where
  "reUptime =
     (alts [seq [liti ''uptime is '', Grp 0 (plus dot)],
            seq [liti ''System Uptime'', Star ws, liti '':'', Star ws, Grp 1 (plus nonws)],
            seq [liti ''Kernel uptime is '', Grp 2 (plus dot)]], 3)"

text \<open>\<^verbatim>\<open>(?i)System restarted at (.*)|Previous Restart\s*:\s*(.*)|Last reset\s*\n\s*Reason:\s*(\S+)\<close>\<close>

definition reRestarted :: regexp where
  "reRestarted =
     (alts [seq [liti ''System restarted at '', Grp 0 (Star dot)],
            seq [liti ''Previous Restart'', Star ws, liti '':'', Star ws, Grp 1 (Star dot)],
            seq [liti ''Last reset'', Star ws, lit [newline], Star ws, liti ''Reason:'', Star ws,
                 Grp 2 (plus nonws)]], 3)"

text \<open>\<^verbatim>\<open>(?i)(?:Last reload reason: (.*)|System returned to ROM by (.*)|Last reset\s*\n\s*Reason:\s*(.*))\<close>\<close>

definition reReloadReason :: regexp where
  "reReloadReason =
     (alts [seq [liti ''Last reload reason: '', Grp 0 (Star dot)],
            seq [liti ''System returned to ROM by '', Grp 1 (Star dot)],
            seq [liti ''Last reset'', Star ws, lit [newline], Star ws, liti ''Reason:'', Star ws,
                 Grp 2 (Star dot)]], 3)"

text \<open>\<^verbatim>\<open>(?i)ROM: (.*)|Bootloader\s*:\s*(\S+)|BIOS:\s*version\s*(\S+)\<close>\<close>

definition reRommon :: regexp where
  "reRommon =
     (alts [seq [liti ''ROM: '', Grp 0 (Star dot)],
            seq [liti ''Bootloader'', Star ws, liti '':'', Star ws, Grp 1 (plus nonws)],
            seq [liti ''BIOS:'', Star ws, liti ''version'', Star ws, Grp 2 (plus nonws)]], 3)"

definition regexes :: "string \<Rightarrow> regexp option" where
  "regexes =
     map_of [(''Hardware'', reHardwareVersion), (''Version'', reVersion), (''Release'', reRelease),
             (''SoftwareImage'', reSoftwareImage), (''SerialNumber'', reSerialNumber),
             (''Uptime'', reUptime), (''Restarted'', reRestarted),
             (''ReloadReason'', reReloadReason), (''Rommon'', reRommon)]"

text \<open>
  Reflection over the struct: \<open>NumField\<close> is 9, \<open>fieldName i\<close> is \<open>t.Field(i).Name\<close>,
  \<open>getField info i\<close> is \<open>v.Field(i).String()\<close> and \<open>setField info i x\<close> is the struct
  after \<open>v.Field(i).SetString(x)\<close>.
\<close>

definition NumField :: nat where
  "NumField = 9"

definition fieldName :: "nat \<Rightarrow> string" where
  "fieldName i =
     [''Hardware'', ''Version'', ''Release'', ''SoftwareImage'', ''SerialNumber'', ''Uptime'',
      ''Restarted'', ''ReloadReason'', ''Rommon''] ! i"

definition getField :: "VersionInfo \<Rightarrow> nat \<Rightarrow> string" where
  "getField info i =
     [Hardware info, Version info, Release info, SoftwareImage info, SerialNumber info,
      Uptime info, Restarted info, ReloadReason info, Rommon info] ! i"

definition setField :: "VersionInfo \<Rightarrow> nat \<Rightarrow> string \<Rightarrow> VersionInfo" where
  "setField info i x =
     [info\<lparr>Hardware := x\<rparr>, info\<lparr>Version := x\<rparr>, info\<lparr>Release := x\<rparr>,
      info\<lparr>SoftwareImage := x\<rparr>, info\<lparr>SerialNumber := x\<rparr>, info\<lparr>Uptime := x\<rparr>,
      info\<lparr>Restarted := x\<rparr>, info\<lparr>ReloadReason := x\<rparr>, info\<lparr>Rommon := x\<rparr>] ! i"

text \<open>
  The loop over the subgroups of a match: the first of \<open>matches[1:]\<close> that is not empty
  once trimmed, trimmed.
\<close>

definition firstGroup :: "string list \<Rightarrow> string option" where
  "firstGroup matches = find (\<lambda>m. m \<noteq> []) (map TrimSpace (drop 1 matches))"

text \<open>The value a clean line gives to a field that is still empty, if any.\<close>

definition fieldCapture :: "regexp \<Rightarrow> string \<Rightarrow> string option" where
  "fieldCapture rx cleanLine =
     (case FindStringSubmatch rx cleanLine of
        None \<Rightarrow> None
      | Some matches \<Rightarrow> if 1 < length matches then firstGroup matches else None)"

text \<open>The body of the loop over the fields, for field \<open>i\<close>.\<close>

definition versionField :: "string \<Rightarrow> VersionInfo \<Rightarrow> nat \<Rightarrow> VersionInfo" where
  "versionField cleanLine info i =
     (if getField info i = [] then
        (case regexes (fieldName i) of
           None \<Rightarrow> info
         | Some rx \<Rightarrow>
             (case fieldCapture rx cleanLine of
                None \<Rightarrow> info
              | Some m \<Rightarrow> setField info i m))
      else info)"

text \<open>The body of the loop over the lines, and the loop.\<close>

definition versionLine :: "VersionInfo \<Rightarrow> string \<Rightarrow> VersionInfo" where
  "versionLine info line = foldl (versionField (TrimSpace line)) info [0..<NumField]"

definition versionInit :: VersionInfo where
  "versionInit =
     \<lparr>Hardware = [], Version = [], Release = [], SoftwareImage = [], SerialNumber = [],
      Uptime = [], Restarted = [], ReloadReason = [], Rommon = []\<rparr>"

definition versionScan :: "string list \<Rightarrow> VersionInfo" where
  "versionScan lines = foldl versionLine versionInit lines"

text \<open>The conversion of the struct to the map that is returned.\<close>

definition versionMap :: "VersionInfo \<Rightarrow> (string \<rightharpoonup> string)" where
  "versionMap info =
     foldl (\<lambda>result i. if getField info i \<noteq> [] then result(fieldName i \<mapsto> getField info i) else result)
       Map.empty [0..<NumField]"

definition parseVersionInfo :: "string \<Rightarrow> error + (string \<rightharpoonup> string)" where
  "parseVersionInfo rawOutput =
     (let info = versionScan (Split rawOutput newline) in
      if Version info = [] \<or> SerialNumber info = [] then Inl EssentialVersionInfo
      else Inr (versionMap info))"

definition Show_version :: "error + string \<Rightarrow> error + (string \<rightharpoonup> string)" where
  "Show_version res =
     (case res of
        Inl err \<Rightarrow> Inl err
      | Inr outputString \<Rightarrow>
          (case parseVersionInfo outputString of
             Inl err \<Rightarrow> Inl (Wrapped err)
           | Inr show_version_data \<Rightarrow> Inr show_version_data))"

definition versionSample :: "string list" where
  "versionSample =
    [''IOS, Version 15.2(4)E, RELEASE SOFTWARE'',
     ''Processor board ID FDO1234X0AB'',
     ''Version 99.9, boot loader'']"

definition restartSample :: "string list" where
  "restartSample =
    [''Previous Restart  :'',
     ''System restarted at 10:00:00 UTC'']"

text \<open>What one clean line makes of the value of field \<open>i\<close>.\<close>

definition fieldValue :: "nat \<Rightarrow> string \<Rightarrow> string \<Rightarrow> string" where
  "fieldValue i cur cleanLine =
     (if cur = [] then
        (case regexes (fieldName i) of
           None \<Rightarrow> cur
         | Some rx \<Rightarrow> (case fieldCapture rx cleanLine of None \<Rightarrow> cur | Some m \<Rightarrow> m))
      else cur)"

section \<open>show running-config\<close>

record InterfaceConfig =
  Interface :: string
  ConfigLines :: "string list"

text \<open>\<^verbatim>\<open>^interface\s+(\S+)$\<close>\<close>

definition interfaceStartRegex :: regexp where
  "interfaceStartRegex = (seq [Bol, lit ''interface'', plus ws, Grp 0 (plus nonws), Eol], 1)"

text \<open>
  The variables the loop of \<open>parseInterfaceConfig\<close> updates; \<open>currentConfig\<close> is a
  pointer, \<open>None\<close> while it is nil.
\<close>

record configState =
  configs :: "InterfaceConfig list"
  currentConfig :: "InterfaceConfig option"

text \<open>The test that makes the loop skip a trimmed line.\<close>

definition configSkipped :: "string \<Rightarrow> bool" where
  "configSkipped line \<longleftrightarrow>
     line = [] \<or> HasPrefix line ''!'' \<or> HasPrefix line ''version'' \<or> HasPrefix line ''hostname''"

text \<open>What is appended when a block is closed.\<close>

definition flushConfig :: "configState \<Rightarrow> InterfaceConfig list" where
  "flushConfig st =
     (case currentConfig st of None \<Rightarrow> configs st | Some c \<Rightarrow> configs st @ [c])"

definition configStep :: "configState \<Rightarrow> string \<Rightarrow> configState" where
  "configStep st raw =
     (let line = TrimSpace raw in
      if configSkipped line then st
      else
        (case FindStringSubmatch interfaceStartRegex line of
           Some matches \<Rightarrow>
             if 1 < length matches then
               \<lparr>configs = flushConfig st,
                currentConfig = Some \<lparr>InterfaceConfig.Interface = matches ! 1, ConfigLines = [line]\<rparr>\<rparr>
             else
               (case currentConfig st of
                  None \<Rightarrow> st
                | Some c \<Rightarrow> st\<lparr>currentConfig := Some (c\<lparr>ConfigLines := ConfigLines c @ [line]\<rparr>)\<rparr>)
         | None \<Rightarrow>
             (case currentConfig st of
                None \<Rightarrow> st
              | Some c \<Rightarrow> st\<lparr>currentConfig := Some (c\<lparr>ConfigLines := ConfigLines c @ [line]\<rparr>)\<rparr>)))"

definition configLoop :: "configState \<Rightarrow> string list \<Rightarrow> configState" where
  "configLoop st lines = foldl configStep st lines"

definition parseInterfaceConfig :: "string \<Rightarrow> error + InterfaceConfig list" where
  "parseInterfaceConfig rawOutput =
     (let st = configLoop \<lparr>configs = [], currentConfig = None\<rparr> (Split rawOutput newline);
          configs = flushConfig st
      in if length configs = 0 then Inl NoInterfaceConfigs else Inr configs)"

definition Show_running_config :: "error + string \<Rightarrow> error + InterfaceConfig list" where
  "Show_running_config res =
     (case res of
        Inl err \<Rightarrow> Inl err
      | Inr outputString \<Rightarrow>
          (case parseInterfaceConfig outputString of
             Inl err \<Rightarrow> Inl err
           | Inr interfaceConfigs \<Rightarrow>
               if length interfaceConfigs = 0 then Inr []
               else Inr (map (\<lambda>c. c\<lparr>InterfaceConfig.Interface :=
                                       normalizeInterfaceName (InterfaceConfig.Interface c)\<rparr>)
                           interfaceConfigs)))"



definition configFourLines :: "string list" where
  "configFourLines =
    [''interface GigabitEthernet1/0/1'',
     '' description uplink'',
     '' switchport mode trunk'',
     '' no shutdown'']"


section \<open>show interface\<close>

record InterfaceDetails =
  Interface :: string
  Description :: string
  Hardware :: string
  MacAddress :: string
  IPAddress :: string
  LinkStatus :: string
  ProtocolStatus :: string
  Duplex :: string
  Speed :: string
  MediaType :: string
  Mtu :: string
  Bandwidth :: string
  Delay :: string
  Reliability :: string
  TxLoad :: string
  RxLoad :: string
  Encapsulation :: string
  LastInput :: string
  LastOutput :: string
  OutputHang :: string
  QueueStrategy :: string
  InputRateBps :: string
  OutputRateBps :: string
  PacketsInput :: string
  PacketsOutput :: string
  Runts :: string
  Giants :: string
  Throttles :: string
  BytesInput :: string
  BytesOutput :: string
  InputErrors :: string
  OutputErrors :: string
  CrcErrors :: string
  Collisions :: string

text \<open>The zero value \<open>InterfaceDetails{}\<close>.\<close>

definition emptyDetails :: InterfaceDetails where
  "emptyDetails =
     \<lparr>InterfaceDetails.Interface = [], Description = [], Hardware = [], MacAddress = [],
      IPAddress = [], LinkStatus = [], ProtocolStatus = [], Duplex = [], Speed = [],
      MediaType = [], Mtu = [], Bandwidth = [], Delay = [], Reliability = [], TxLoad = [],
      RxLoad = [], Encapsulation = [], LastInput = [], LastOutput = [], OutputHang = [],
      QueueStrategy = [], InputRateBps = [], OutputRateBps = [], PacketsInput = [],
      PacketsOutput = [], Runts = [], Giants = [], Throttles = [], BytesInput = [],
      BytesOutput = [], InputErrors = [], OutputErrors = [], CrcErrors = [], Collisions = []\<rparr>"

text \<open>\<^verbatim>\<open>^(\S+\d+\S*)\s+is\s+.*\<close>\<close>

definition reInterfaceStart :: regexp where
  "reInterfaceStart =
     (seq [Bol, Grp 0 (seq [plus nonws, plus digit, Star nonws]), plus ws, lit ''is'', plus ws,
           Star dot], 1)"

text \<open>\<^verbatim>\<open>^\S+[>#]\s*$\<close>\<close>

definition rePrompt :: regexp where
  "rePrompt = (seq [Bol, plus nonws, cls (\<lambda>c. c = CHR ''>'' \<or> c = CHR ''#''), Star ws, Eol], 0)"

text \<open>\<^verbatim>\<open>^(\S+)\s+is\s+(administratively down|down|up|err-disabled|deleted)(?:,\s+line\s+protocol\s+is\s+(down|up|down \(disabled\)))?\<close>\<close>

definition reStatus :: regexp where
  "reStatus =
     (seq [Bol, Grp 0 (plus nonws), plus ws, lit ''is'', plus ws,
           Grp 1 (alts [lit ''administratively down'', lit ''down'', lit ''up'',
                        lit ''err-disabled'', lit ''deleted'']),
           opt (seq [lit '','', plus ws, lit ''line'', plus ws, lit ''protocol'', plus ws,
                     lit ''is'', plus ws,
                     Grp 2 (alts [lit ''down'', lit ''up'', lit ''down (disabled)''])])], 3)"

text \<open>\<^verbatim>\<open>Hardware(?::| is) ([^,]+), address is ([\w\.]+)\<close>\<close>

definition reHardware :: regexp where
  "reHardware =
     (seq [lit ''Hardware'', alts [lit '':'', lit '' is''], lit '' '',
           Grp 0 (plus (cls (\<lambda>c. c \<noteq> CHR '',''))), lit '', address is '',
           Grp 1 (plus (cls (\<lambda>c. wordChar c \<or> c = CHR ''.'')))], 2)"

text \<open>\<^verbatim>\<open>Description:\s*(.*)\<close>\<close>

definition reDescription :: regexp where
  "reDescription = (seq [lit ''Description:'', Star ws, Grp 0 (Star dot)], 1)"

text \<open>\<^verbatim>\<open>Internet address is ([\d\.]+\/\d+)\<close>\<close>

definition reAddress :: regexp where
  "reAddress =
     (seq [lit ''Internet address is '',
           Grp 0 (seq [plus (cls (\<lambda>c. digitChar c \<or> c = CHR ''.'')), lit ''/'', plus digit])], 1)"

text \<open>\<^verbatim>\<open>MTU (\d+) bytes, BW (\d+) Kbit(?:/sec)?, DLY (\d+) usec(?:,)?\<close>\<close>

definition reMtuBwDly :: regexp where
  "reMtuBwDly =
     (seq [lit ''MTU '', Grp 0 (plus digit), lit '' bytes, BW '', Grp 1 (plus digit),
           lit '' Kbit'', opt (lit ''/sec''), lit '', DLY '', Grp 2 (plus digit), lit '' usec'',
           opt (lit '','')], 3)"

text \<open>\<^verbatim>\<open>\s*(\S+-duplex),\s*([^,]+)(?:,\s*media type is (.*))?\<close>\<close>

definition reDuplexSpeedMedia :: regexp where
  "reDuplexSpeedMedia =
     (seq [Star ws, Grp 0 (seq [plus nonws, lit ''-duplex'']), lit '','', Star ws,
           Grp 1 (plus (cls (\<lambda>c. c \<noteq> CHR '',''))),
           opt (seq [lit '','', Star ws, lit ''media type is '', Grp 2 (Star dot)])], 3)"

text \<open>\<^verbatim>\<open>\s*Encapsulation ([^,]+),?\<close>\<close>

definition reEncapsulation :: regexp where
  "reEncapsulation =
     (seq [Star ws, lit ''Encapsulation '', Grp 0 (plus (cls (\<lambda>c. c \<noteq> CHR '',''))),
           opt (lit '','')], 1)"

text \<open>\<^verbatim>\<open>reliability\s+(\d+\/\d+),\s+txload\s+(\d+\/\d+),\s+rxload\s+(\d+\/\d+)\<close>\<close>

definition reReliabilityLoad :: regexp where
  "reReliabilityLoad =
     (seq [lit ''reliability'', plus ws, Grp 0 (seq [plus digit, lit ''/'', plus digit]),
           lit '','', plus ws, lit ''txload'', plus ws,
           Grp 1 (seq [plus digit, lit ''/'', plus digit]),
           lit '','', plus ws, lit ''rxload'', plus ws,
           Grp 2 (seq [plus digit, lit ''/'', plus digit])], 3)"

text \<open>\<^verbatim>\<open>(?s)(?:5 minute|30 seconds) input rate (\d+) bits/sec,.*(?:5 minute|30 seconds) output rate (\d+) bits/sec\<close>\<close>

definition reRates :: regexp where
  "reRates =
     (seq [alts [lit ''5 minute'', lit ''30 seconds''], lit '' input rate '', Grp 0 (plus digit),
           lit '' bits/sec,'', Star anyChar, alts [lit ''5 minute'', lit ''30 seconds''],
           lit '' output rate '', Grp 1 (plus digit), lit '' bits/sec''], 2)"

text \<open>\<^verbatim>\<open>(\d+)\s+(?:packets\s+input|input\s+packets)(?:,)?\s+(\d+)\s+bytes\<close>\<close>

definition reInputCounters :: regexp where
  "reInputCounters =
     (seq [Grp 0 (plus digit), plus ws,
           alts [seq [lit ''packets'', plus ws, lit ''input''],
                 seq [lit ''input'', plus ws, lit ''packets'']],
           opt (lit '',''), plus ws, Grp 1 (plus digit), plus ws, lit ''bytes''], 2)"

text \<open>\<^verbatim>\<open>(\d+)\s+input\s+errors,\s+(\d+)\s+CRC\<close>\<close>

definition reInputErrors :: regexp where
  "reInputErrors =
     (seq [Grp 0 (plus digit), plus ws, lit ''input'', plus ws, lit ''errors,'', plus ws,
           Grp 1 (plus digit), plus ws, lit ''CRC''], 2)"

text \<open>\<^verbatim>\<open>(\d+)\s+input\s+error(?:s)?\<close>\<close>

definition reInputErrorsNexus :: regexp where
  "reInputErrorsNexus =
     (seq [Grp 0 (plus digit), plus ws, lit ''input'', plus ws, lit ''error'', opt (lit ''s'')], 1)"

text \<open>\<^verbatim>\<open>(\d+)\s+CRC\<close>\<close>

definition reCrcErrorsNexus :: regexp where
  "reCrcErrorsNexus = (seq [Grp 0 (plus digit), plus ws, lit ''CRC''], 1)"

text \<open>\<^verbatim>\<open>(\d+)\s+(?:packets\s+output|output\s+packets)(?:,)?\s+(\d+)\s+bytes\<close>\<close>

definition reOutputCounters :: regexp where
  "reOutputCounters =
     (seq [Grp 0 (plus digit), plus ws,
           alts [seq [lit ''packets'', plus ws, lit ''output''],
                 seq [lit ''output'', plus ws, lit ''packets'']],
           opt (lit '',''), plus ws, Grp 1 (plus digit), plus ws, lit ''bytes''], 2)"

text \<open>\<^verbatim>\<open>(\d+)\s+output\s+errors(?:,)?\s+(\d+)\s+collision(?:s)?\<close>\<close>

definition reOutputErrors :: regexp where
  "reOutputErrors =
     (seq [Grp 0 (plus digit), plus ws, lit ''output'', plus ws, lit ''errors'', opt (lit '',''),
           plus ws, Grp 1 (plus digit), plus ws, lit ''collision'', opt (lit ''s'')], 2)"

text \<open>\<^verbatim>\<open>\s*Last input\s+(.*?),\s+output\s+(.*?),\s+output hang\s+(.*)\<close>\<close>

definition reLastIO :: regexp where
  "reLastIO =
     (seq [Star ws, lit ''Last input'', plus ws, Grp 0 (Lazy dot), lit '','', plus ws,
           lit ''output'', plus ws, Grp 1 (Lazy dot), lit '','', plus ws, lit ''output hang'',
           plus ws, Grp 2 (Star dot)], 3)"

text \<open>\<^verbatim>\<open>Queueing strategy:\s*(.*)\<close>\<close>

definition reQueueStrategy :: regexp where
  "reQueueStrategy = (seq [lit ''Queueing strategy:'', Star ws, Grp 0 (Star dot)], 1)"

text \<open>\<^verbatim>\<open>\s*(\d+)\s+runts,\s+(\d+)\s+giants,\s+(\d+)\s+throttles\<close>\<close>

definition reRuntsGiantsThrottles :: regexp where
  "reRuntsGiantsThrottles =
     (seq [Star ws, Grp 0 (plus digit), plus ws, lit ''runts,'', plus ws, Grp 1 (plus digit),
           plus ws, lit ''giants,'', plus ws, Grp 2 (plus digit), plus ws, lit ''throttles''], 3)"

text \<open>\<^verbatim>\<open>\s*(\d+)\s+runts\s+(\d+)\s+giants\<close>\<close>

definition reRuntsGiantsNexus :: regexp where
  "reRuntsGiantsNexus =
     (seq [Star ws, Grp 0 (plus digit), plus ws, lit ''runts'', plus ws, Grp 1 (plus digit),
           plus ws, lit ''giants''], 2)"

text \<open>The helper \<open>findString\<close>: the first group of the match, trimmed, or the empty string.\<close>

definition findString :: "regexp \<Rightarrow> string \<Rightarrow> string" where
  "findString rx s =
     (case FindStringSubmatch rx s of
        None \<Rightarrow> []
      | Some matches \<Rightarrow> if 1 < length matches then TrimSpace (matches ! 1) else [])"

text \<open>
  The matches of a \<open>FindStringSubmatch\<close> whose result is tested with \<open>len(matches) > n\<close>,
  \<open>None\<close> when the test fails.
\<close>

definition submatchMoreThan :: "nat \<Rightarrow> regexp \<Rightarrow> string \<Rightarrow> string list option" where
  "submatchMoreThan n rx s =
     (case FindStringSubmatch rx s of
        None \<Rightarrow> None
      | Some matches \<Rightarrow> if n < length matches then Some matches else None)"

definition parseSingleInterface :: "string \<Rightarrow> InterfaceDetails" where
  "parseSingleInterface block =
     (case submatchMoreThan 2 reStatus block of
        None \<Rightarrow> emptyDetails
      | Some m \<Rightarrow>
          (let iface = emptyDetails
                 \<lparr>InterfaceDetails.Interface := m ! 1, LinkStatus := m ! 2,
                  ProtocolStatus := (if 3 < length m \<and> m ! 3 \<noteq> [] then m ! 3 else m ! 2)\<rparr>;
               iface =
                 (case submatchMoreThan 2 reHardware block of
                    None \<Rightarrow> iface
                  | Some x \<Rightarrow> iface\<lparr>InterfaceDetails.Hardware := TrimSpace (x ! 1),
                                     MacAddress := TrimSpace (x ! 2)\<rparr>);
               iface = iface\<lparr>InterfaceDetails.Description := TrimSpace (findString reDescription block)\<rparr>;
               iface = iface\<lparr>IPAddress := findString reAddress block\<rparr>;
               iface =
                 (case submatchMoreThan 3 reMtuBwDly block of
                    None \<Rightarrow> iface
                  | Some x \<Rightarrow> iface\<lparr>Mtu := x ! 1, Bandwidth := x ! 2, Delay := x ! 3\<rparr>);
               iface =
                 (case submatchMoreThan 2 reDuplexSpeedMedia block of
                    None \<Rightarrow> iface
                  | Some x \<Rightarrow>
                      (let iface = iface\<lparr>InterfaceDetails.Duplex := TrimSpace (x ! 1),
                                           InterfaceDetails.Speed := TrimSpace (x ! 2)\<rparr>
                       in if 3 < length x \<and> x ! 3 \<noteq> [] then iface\<lparr>MediaType := TrimSpace (x ! 3)\<rparr>
                          else iface));
               iface = iface\<lparr>Encapsulation := findString reEncapsulation block\<rparr>;
               iface =
                 (case submatchMoreThan 3 reReliabilityLoad block of
                    None \<Rightarrow> iface
                  | Some x \<Rightarrow> iface\<lparr>Reliability := x ! 1, TxLoad := x ! 2, RxLoad := x ! 3\<rparr>);
               iface =
                 (case submatchMoreThan 2 reRates block of
                    None \<Rightarrow> iface
                  | Some x \<Rightarrow> iface\<lparr>InputRateBps := x ! 1, OutputRateBps := x ! 2\<rparr>);
               iface =
                 (case submatchMoreThan 2 reInputCounters block of
                    None \<Rightarrow> iface
                  | Some x \<Rightarrow> iface\<lparr>PacketsInput := x ! 1, BytesInput := x ! 2\<rparr>);
               iface =
                 (case submatchMoreThan 2 reInputErrors block of
                    None \<Rightarrow> iface\<lparr>InputErrors := findString reInputErrorsNexus block,
                                      CrcErrors := findString reCrcErrorsNexus block\<rparr>
                  | Some x \<Rightarrow> iface\<lparr>InputErrors := x ! 1, CrcErrors := x ! 2\<rparr>);
               iface =
                 (case submatchMoreThan 2 reOutputCounters block of
                    None \<Rightarrow> iface
                  | Some x \<Rightarrow> iface\<lparr>PacketsOutput := x ! 1, BytesOutput := x ! 2\<rparr>);
               iface =
                 (case submatchMoreThan 2 reOutputErrors block of
                    None \<Rightarrow> iface
                  | Some x \<Rightarrow> iface\<lparr>OutputErrors := x ! 1, Collisions := x ! 2\<rparr>);
               iface =
                 (case submatchMoreThan 3 reLastIO block of
                    None \<Rightarrow> iface
                  | Some x \<Rightarrow> iface\<lparr>LastInput := TrimSpace (x ! 1), LastOutput := TrimSpace (x ! 2),
                                     OutputHang := TrimSpace (x ! 3)\<rparr>);
               iface = iface\<lparr>QueueStrategy := findString reQueueStrategy block\<rparr>;
               iface =
                 (case submatchMoreThan 3 reRuntsGiantsThrottles block of
                    Some x \<Rightarrow> iface\<lparr>Runts := x ! 1, Giants := x ! 2, Throttles := x ! 3\<rparr>
                  | None \<Rightarrow>
                      (case submatchMoreThan 2 reRuntsGiantsNexus block of
                         None \<Rightarrow> iface
                       | Some x \<Rightarrow> iface\<lparr>Runts := x ! 1, Giants := x ! 2\<rparr>))
           in iface))"

text \<open>
  The cleaning loop of \<open>parseInterfaces\<close>: the lines after the first line that contains
  \<open>show interface\<close>, up to a prompt line, with their trailing carriage returns removed.
\<close>

record cleanState =
  parsingActive :: bool
  cleanLines :: "string list"

definition cleanStep :: "cleanState \<Rightarrow> string \<Rightarrow> cleanState" where
  "cleanStep st raw =
     (let line = TrimRightCR raw in
      if \<not> parsingActive st \<and> Contains line ''show interface'' then st\<lparr>parsingActive := True\<rparr>
      else
        let active = (if parsingActive st \<and> MatchString rePrompt line then False
                      else parsingActive st)
        in if active then \<lparr>parsingActive = active, cleanLines = cleanLines st @ [line]\<rparr>
           else st\<lparr>parsingActive := active\<rparr>)"

definition cleanWindow :: "string list \<Rightarrow> string list" where
  "cleanWindow lines = cleanLines (foldl cleanStep \<lparr>parsingActive = False, cleanLines = []\<rparr> lines)"

text \<open>The stitching loop: the records appended so far and the block being read.\<close>

record stitchState =
  interfaces :: "InterfaceDetails list"
  currentBlock :: "string list"

text \<open>
  What closing a block does: the block is joined and parsed, and the record is appended
  when its \<open>Interface\<close> is not empty.
\<close>

definition emitBlock :: "InterfaceDetails list \<Rightarrow> string list \<Rightarrow> InterfaceDetails list" where
  "emitBlock ifs block =
     (if 0 < length block then
        (let iface = parseSingleInterface (Join block [newline]) in
         if InterfaceDetails.Interface iface \<noteq> [] then ifs @ [iface] else ifs)
      else ifs)"

definition stitchStep :: "stitchState \<Rightarrow> string \<Rightarrow> stitchState" where
  "stitchStep st line =
     (if MatchString reInterfaceStart line then
        \<lparr>interfaces = emitBlock (stitchState.interfaces st) (currentBlock st), currentBlock = [line]\<rparr>
      else if 0 < length (currentBlock st) then st\<lparr>currentBlock := currentBlock st @ [line]\<rparr>
      else st)"

definition stitchLoop :: "stitchState \<Rightarrow> string list \<Rightarrow> stitchState" where
  "stitchLoop st lines = foldl stitchStep st lines"

definition parseInterfaces :: "string \<Rightarrow> error + InterfaceDetails list" where
  "parseInterfaces rawOutput =
     (let st = stitchLoop \<lparr>interfaces = [], currentBlock = []\<rparr>
                 (cleanWindow (Split rawOutput newline))
      in Inr (emitBlock (stitchState.interfaces st) (currentBlock st)))"

definition Show_interfaces :: "error + string \<Rightarrow> error + InterfaceDetails list" where
  "Show_interfaces res =
     (case res of
        Inl err \<Rightarrow> Inl err
      | Inr outputString \<Rightarrow>
          (case parseInterfaces outputString of
             Inl err \<Rightarrow> Inl (Wrapped err)
           | Inr show_interface_data \<Rightarrow>
               if length show_interface_data = 0 then Inr []
               else Inr (map (\<lambda>d. d\<lparr>InterfaceDetails.Interface :=
                                       normalizeInterfaceName (InterfaceDetails.Interface d)\<rparr>)
                           show_interface_data)))"


definition interfacesShort :: "string list" where
  "interfacesShort =
    [''show interface'',
     ''GigabitEthernet1 is up'']"

section \<open>show mac address-table\<close>

record MacAddressEntry =
  Interface :: string
  MacAddress :: string
  VlanID :: string
  Type :: string

text \<open>\<^verbatim>\<open>^\s*\*?\s*(\d+)\s+([\w\.]+)\s+([\w]+)(?:\s+[\w\-])*\s+(\S+)\<close>\<close>

definition reEntry :: regexp where
  "reEntry =
     (seq [Bol, Star ws, opt (lit ''*''), Star ws, Grp 0 (plus digit), plus ws,
           Grp 1 (plus (cls (\<lambda>c. wordChar c \<or> c = CHR ''.''))), plus ws,
           Grp 2 (plus (cls wordChar)),
           Star (seq [plus ws, cls (\<lambda>c. wordChar c \<or> c = CHR ''-'')]), plus ws,
           Grp 3 (plus nonws)], 4)"

text \<open>The body of the loop over the lines: \<open>None\<close> where no entry is appended.\<close>

definition parseMacLine :: "string \<Rightarrow> MacAddressEntry option" where
  "parseMacLine raw =
     (let line = TrimSpace raw in
      if length line = 0 \<or> Contains line ''Mac Address Table'' \<or> Contains line ''Vlan'' \<or>
         Contains line ''----'' \<or> Contains line ''Total Mac Addresses'' \<or> Contains line ''CPU''
      then None
      else
        (case FindStringSubmatch reEntry line of
           None \<Rightarrow> None
         | Some matches \<Rightarrow>
             if length matches = 5 then
               Some \<lparr>MacAddressEntry.Interface = matches ! 4,
                     MacAddressEntry.MacAddress = matches ! 2,
                     MacAddressEntry.VlanID = TrimSpace (matches ! 1),
                     MacAddressEntry.Type = matches ! 3\<rparr>
             else None))"

definition parseMacAddressTable :: "string \<Rightarrow> error + MacAddressEntry list" where
  "parseMacAddressTable rawOutput =
     Inr (List.map_filter parseMacLine (Split rawOutput newline))"

definition Show_mac_address_table :: "error + string \<Rightarrow> error + MacAddressEntry list" where
  "Show_mac_address_table res =
     (case res of
        Inl err \<Rightarrow> Inl err
      | Inr outputString \<Rightarrow>
          (case parseMacAddressTable outputString of
             Inl err \<Rightarrow> Inl (Wrapped err)
           | Inr mac_table_data \<Rightarrow>
               if length mac_table_data = 0 then Inr [] else Inr mac_table_data))"

section \<open>show vlan\<close>

record VlanInfo =
  VLANID :: string
  VLANName :: string
  Status :: string
  Ports :: "string list"

text \<open>\<^verbatim>\<open>^\d\<close>\<close>

definition isNewVlanLine :: regexp where
  "isNewVlanLine = (seq [Bol, digit], 0)"

text \<open>
  The header search: the index two lines after the first line with the prefix
  \<open>VLAN Name\<close>.
\<close>

primrec vlanHeaderFrom :: "nat \<Rightarrow> string list \<Rightarrow> nat option" where
  "vlanHeaderFrom i [] = None"
| "vlanHeaderFrom i (l # ls) =
     (if HasPrefix l ''VLAN Name'' then Some (i + 2) else vlanHeaderFrom (i + 1) ls)"

text \<open>
  The loop over the data lines. It stops at a line with the prefix \<open>VLAN Type\<close>; a line
  that does not start with a digit adds its ports to the last entry.
\<close>

fun vlanLoop :: "VlanInfo list \<Rightarrow> string list \<Rightarrow> VlanInfo list" where
  "vlanLoop vlans [] = vlans"
| "vlanLoop vlans (raw # rest) =
     (let line = TrimRightCR raw in
      if HasPrefix line ''VLAN Type'' then vlans
      else if line = [] then vlanLoop vlans rest
      else if MatchString isNewVlanLine line then
        (let fields = Fields line in
         if length fields < 3 then vlanLoop vlans rest
         else
           vlanLoop
             (vlans @
              [\<lparr>VLANID = fields ! 0, VLANName = fields ! 1, VlanInfo.Status = fields ! 2,
                Ports = (if 3 < length fields then Split (Join (drop 3 fields) []) CHR '','' else [])\<rparr>])
             rest)
      else if 0 < length vlans then
        vlanLoop
          (butlast vlans @
           [(last vlans)\<lparr>Ports := Ports (last vlans) @ Split (TrimSpace line) CHR '',''\<rparr>])
          rest
      else vlanLoop vlans rest)"

text \<open>The clean-up of the port lists: every port trimmed, the empty ones dropped.\<close>

definition cleanPorts :: "VlanInfo \<Rightarrow> VlanInfo" where
  "cleanPorts v = v\<lparr>Ports := filter (\<lambda>p. p \<noteq> []) (map TrimSpace (Ports v))\<rparr>"

definition parseVlanInfo :: "string \<Rightarrow> error + VlanInfo list" where
  "parseVlanInfo rawOutput =
     (let lines = Split rawOutput newline in
      case vlanHeaderFrom 0 lines of
        None \<Rightarrow> Inl VlanHeaderNotFound
      | Some dataStartIndex \<Rightarrow> Inr (map cleanPorts (vlanLoop [] (drop dataStartIndex lines))))"

definition Show_vlan :: "error + string \<Rightarrow> error + VlanInfo list" where
  "Show_vlan res =
     (case res of
        Inl err \<Rightarrow> Inl err
      | Inr outputString \<Rightarrow>
          (case parseVlanInfo outputString of
             Inl err \<Rightarrow> Inl err
           | Inr vlan_data \<Rightarrow> if length vlan_data = 0 then Inr [] else Inr vlan_data))"

text \<open>Blobs in which a device writes an interface name in full.\<close>

definition statusLongName :: "string list" where
  "statusLongName =
    [''show interface status'',
     ''Port      Name               Status       Vlan       Duplex  Speed Type'',
     ''GigabitEthernet1/0/1 uplink connected 1 full 1000 10/100/1000BaseTX'']"

definition vlanLongName :: "string list" where
  "vlanLongName =
    [''VLAN Name                             Status    Ports'',
     ''---- -------------------------------- --------- -------------------------------'',
     ''10   DATA                             active    GigabitEthernet1/0/1, Gi1/0/2'']"

definition macLongName :: "string list" where
  "macLongName =
    [''  10    0011.2233.4455    DYNAMIC     GigabitEthernet1/0/1'']"

section \<open>Properties of the normalizer\<close>

lemma Replace_noAlias: "noAlias s \<Longrightarrow> Replace replacerTable s = s"
  by (induction s) simp_all

lemma stripSpaces_id: "CHR '' '' \<notin> set s \<Longrightarrow> stripSpaces s = s"
  unfolding stripSpaces_def by (induction s) auto

lemma space_notin_stripSpaces: "CHR '' '' \<notin> set (stripSpaces s)"
  by (simp add: stripSpaces_def)

lemma replacerTable_values: "kv \<in> set replacerTable \<Longrightarrow> CHR '' '' \<notin> set (snd kv)"
  by (auto simp: replacerTable_def)

lemma replacerLookup_in_table: "replacerLookup tbl s = Some kv \<Longrightarrow> kv \<in> set tbl"
  by (auto simp: replacerLookup_def find_Some_iff)

lemma space_notin_Replace:
  "CHR '' '' \<notin> set s \<Longrightarrow> CHR '' '' \<notin> set (Replace replacerTable s)"
proof (induction replacerTable s rule: Replace.induct)
  case 1
  then show ?case by simp
next
  case (2 c cs)
  show ?case
  proof (cases "replacerLookup replacerTable (c # cs)")
    case None
    with 2 show ?thesis by simp
  next
    case (Some kv)
    have "CHR '' '' \<notin> set (drop (length (fst kv)) (c # cs))"
      using "2.prems" by (meson in_set_dropD)
    with 2 Some have "CHR '' '' \<notin> set (Replace replacerTable (drop (length (fst kv)) (c # cs)))"
      by simp
    moreover have "CHR '' '' \<notin> set (snd kv)"
      using Some replacerLookup_in_table replacerTable_values by blast
    ultimately show ?thesis using Some by simp
  qed
qed

lemma space_notin_normalize: "CHR '' '' \<notin> set (normalizeInterfaceName s)"
  by (simp add: normalizeInterfaceName_def space_notin_Replace space_notin_stripSpaces)

text \<open>
  C5, as the code has it. The normalizer makes one pass, so text that becomes a key only
  once a replacement has been written next to it is left for a second call: it is not
  idempotent on every string. It returns unchanged every string that holds no space and
  no key of the replacer table (every canonical name among them), and normalizing twice
  equals normalizing once whenever the first result holds no key of the table.
\<close>

theorem normalize_fixpoints:
  "(CHR '' '' \<notin> set s \<and> noAlias s \<longrightarrow> normalizeInterfaceName s = s) \<and>
   (noAlias (normalizeInterfaceName s) \<longrightarrow>
      normalizeInterfaceName (normalizeInterfaceName s) = normalizeInterfaceName s)"
proof -
  have unchanged: "normalizeInterfaceName t = t" if "CHR '' '' \<notin> set t" "noAlias t" for t
    using that by (simp add: normalizeInterfaceName_def stripSpaces_id Replace_noAlias)
  show ?thesis using unchanged space_notin_normalize by blast
qed

theorem normalize_fixpoints_witness:
  "CHR '' '' \<notin> set ''Gi1/0/1'' \<and> noAlias ''Gi1/0/1'' \<and>
   normalizeInterfaceName ''Gi1/0/1'' = ''Gi1/0/1'' \<and>
   noAlias (normalizeInterfaceName ''GigabitEthernet1/0/1'') \<and>
   normalizeInterfaceName (normalizeInterfaceName ''GigabitEthernet1/0/1'') =
     normalizeInterfaceName ''GigabitEthernet1/0/1''"
proof -
  have h1: "CHR '' '' \<notin> set ''Gi1/0/1'' \<and> noAlias ''Gi1/0/1''"
    by code_simp
  have h2: "noAlias (normalizeInterfaceName ''GigabitEthernet1/0/1'')"
    by code_simp
  from h1 normalize_fixpoints [of "''Gi1/0/1''"]
  have "normalizeInterfaceName ''Gi1/0/1'' = ''Gi1/0/1''" by blast
  moreover from h2 normalize_fixpoints [of "''GigabitEthernet1/0/1''"]
  have "normalizeInterfaceName (normalizeInterfaceName ''GigabitEthernet1/0/1'') =
     normalizeInterfaceName ''GigabitEthernet1/0/1''" by blast
  ultimately show ?thesis using h1 h2 by blast
qed

text \<open>
  C5 as stated fails: \<open>Gigg\<close> becomes \<open>Gig\<close>, which a second call turns into \<open>Gi\<close>.
\<close>

theorem normalize_not_idempotent:
  "normalizeInterfaceName ''Gigg'' = ''Gig'' \<and>
   normalizeInterfaceName (normalizeInterfaceName ''Gigg'') = ''Gi'' \<and>
   normalizeInterfaceName (normalizeInterfaceName ''Gigg'') \<noteq> normalizeInterfaceName ''Gigg''"
  by code_simp

section \<open>Properties of the inline-power parser\<close>





lemma powerStep_ignored:
  assumes "Fields line \<noteq> []" and "\<not> keywordLine (Fields line)"
    and "currentSection st = SectionInterface \<and> \<not> interfaceShape (Fields line) \<or>
         currentSection st = SectionModule \<and> \<not> moduleShape (Fields line)"
  shows "powerStep st line = st"
  using assms
  by (auto simp: powerStep_def Let_def keywordLine_def interfaceShape_def moduleShape_def)

lemma powerStep_interface_row:
  assumes "currentSection st = SectionInterface"
    and "\<not> keywordLine (Fields line)" and "interfaceShape (Fields line)"
  shows "powerStep st line = st\<lparr>powerState.interfaces := powerState.interfaces st @ [interfaceRow (Fields line)]\<rparr>"
  using assms
  by (auto simp: powerStep_def Let_def keywordLine_def interfaceShape_def interfaceRow_def)






lemma powerLoop_snoc: "powerLoop st (pre @ [line]) = powerStep (powerLoop st pre) line"
  by (simp add: powerLoop_def)

lemma powerLoop_skip:
  "powerStep (powerLoop st pre) line = powerLoop st pre \<Longrightarrow>
   powerLoop st (pre @ line # post) = powerLoop st (pre @ post)"
  by (simp add: powerLoop_def)

text \<open>
  C9, as the code has it. A line with at least one token whose first token is neither
  \<open>Module\<close> nor \<open>Interface\<close>, read in the Interface section and failing the Interface
  shape (fewer than 6 tokens, or a first token without a slash), or read in the Module
  section and failing the Module shape (not exactly 4 tokens, or dash-led), leaves every
  variable of the loop as it was: the result is that of the input without the line. A
  valid interface row that follows in the Interface section is appended as a record. (A
  line whose first token is \<open>Module\<close> or \<open>Interface\<close> switches the section, whatever its
  shape.)
\<close>

theorem power_state_isolation:
  assumes "Fields line \<noteq> []" and "\<not> keywordLine (Fields line)"
    and "currentSection (powerLoop st pre) = SectionInterface \<and> \<not> interfaceShape (Fields line) \<or>
         currentSection (powerLoop st pre) = SectionModule \<and> \<not> moduleShape (Fields line)"
  shows "powerLoop st (pre @ [line]) = powerLoop st pre \<and>
         powerLoop st (pre @ line # post) = powerLoop st (pre @ post) \<and>
         (currentSection (powerLoop st pre) = SectionInterface \<and>
          \<not> keywordLine (Fields nxt) \<and> interfaceShape (Fields nxt) \<longrightarrow>
            powerLoop st (pre @ [line, nxt]) =
              (powerLoop st pre)\<lparr>powerState.interfaces :=
                 powerState.interfaces (powerLoop st pre) @ [interfaceRow (Fields nxt)]\<rparr>)"
proof -
  have same: "powerStep (powerLoop st pre) line = powerLoop st pre"
    using assms by (rule powerStep_ignored)
  have one: "powerLoop st (pre @ [line]) = powerLoop st pre"
    using same by (simp add: powerLoop_snoc)
  have two: "powerLoop st (pre @ line # post) = powerLoop st (pre @ post)"
    using same by (rule powerLoop_skip)
  have three: "powerLoop st (pre @ [line, nxt]) =
      (powerLoop st pre)\<lparr>powerState.interfaces := powerState.interfaces (powerLoop st pre) @ [interfaceRow (Fields nxt)]\<rparr>"
    if "currentSection (powerLoop st pre) = SectionInterface"
      "\<not> keywordLine (Fields nxt)" "interfaceShape (Fields nxt)"
  proof -
    have "powerLoop st (pre @ [line, nxt]) = powerStep (powerLoop st (pre @ [line])) nxt"
      using powerLoop_snoc [of st "pre @ [line]" nxt] by simp
    also have "\<dots> = powerStep (powerLoop st pre) nxt"
      by (simp only: one)
    finally show ?thesis
      using that by (simp add: powerStep_interface_row)
  qed
  from one two three show ?thesis by blast
qed

theorem power_state_isolation_witness:
  "Fields (powerInterfaceLines ! 1) \<noteq> [] \<and> \<not> keywordLine (Fields (powerInterfaceLines ! 1)) \<and>
   currentSection (powerLoop powerInit (take 1 powerInterfaceLines)) = SectionInterface \<and>
   \<not> interfaceShape (Fields (powerInterfaceLines ! 1)) \<and>
   \<not> keywordLine (Fields (powerInterfaceLines ! 3)) \<and>
   interfaceShape (Fields (powerInterfaceLines ! 3)) \<and>
   powerLoop powerInit (take 1 powerInterfaceLines @ [powerInterfaceLines ! 1]) =
     powerLoop powerInit (take 1 powerInterfaceLines) \<and>
   powerLoop powerInit (take 1 powerInterfaceLines @ [powerInterfaceLines ! 1, powerInterfaceLines ! 3]) =
     \<lparr>currentSection = SectionInterface, modules = [],
      powerState.interfaces = [\<lparr>PowerInterfaceInfo.Interface = ''Gi1/0/1'', Admin = ''auto'', Oper = ''on'',
        Power = ''6.3'', Device = ''IP Phone 7945'', Class = ''3'', Max = ''15.4''\<rparr>]\<rparr>"
proof -
  let ?pre = "take 1 powerInterfaceLines"
  let ?line = "powerInterfaceLines ! 1"
  let ?nxt = "powerInterfaceLines ! 3"
  have h1: "Fields ?line \<noteq> []" by code_simp
  have h2: "\<not> keywordLine (Fields ?line)" by code_simp
  have h3: "currentSection (powerLoop powerInit ?pre) = SectionInterface" by code_simp
  have h4: "\<not> interfaceShape (Fields ?line)" by code_simp
  have h5: "\<not> keywordLine (Fields ?nxt)" by code_simp
  have h6: "interfaceShape (Fields ?nxt)" by code_simp
  have v: "(powerLoop powerInit ?pre)\<lparr>powerState.interfaces :=
       powerState.interfaces (powerLoop powerInit ?pre) @ [interfaceRow (Fields ?nxt)]\<rparr> =
     \<lparr>currentSection = SectionInterface, modules = [],
      powerState.interfaces = [\<lparr>PowerInterfaceInfo.Interface = ''Gi1/0/1'', Admin = ''auto'', Oper = ''on'',
        Power = ''6.3'', Device = ''IP Phone 7945'', Class = ''3'', Max = ''15.4''\<rparr>]\<rparr>"
    by code_simp
  have h34: "currentSection (powerLoop powerInit ?pre) = SectionInterface \<and> \<not> interfaceShape (Fields ?line) \<or>
         currentSection (powerLoop powerInit ?pre) = SectionModule \<and> \<not> moduleShape (Fields ?line)"
    using h3 h4 by blast
  note t = power_state_isolation [OF h1 h2 h34, where post = "[]" and nxt = "?nxt"]
  have c1: "powerLoop powerInit (?pre @ [?line]) = powerLoop powerInit ?pre"
    using t by blast
  have c2: "powerLoop powerInit (?pre @ [?line, ?nxt]) =
     (powerLoop powerInit ?pre)\<lparr>powerState.interfaces :=
       powerState.interfaces (powerLoop powerInit ?pre) @ [interfaceRow (Fields ?nxt)]\<rparr>"
    using t h3 h5 h6 by blast
  from h1 h2 h3 h4 h5 h6 c1 c2 v show ?thesis by simp
qed

text \<open>
  C9 as stated fails on a keyword line. In the sample output the header of the interface
  table follows the module rows without a blank line: it is read in the Module section,
  has seven tokens, and moves the loop to the Interface section. A line starting with
  \<open>Module\<close> read in the Interface section has no slash in its first token and moves
  the loop to the Module section.
\<close>

theorem power_keyword_line_switches_section:
  "currentSection (powerLoop powerInit powerModuleLines) = SectionModule \<and>
   Fields (powerInterfaceLines ! 0) \<noteq> [] \<and>
   \<not> moduleShape (Fields (powerInterfaceLines ! 0)) \<and>
   powerLoop powerInit (powerModuleLines @ [powerInterfaceLines ! 0]) \<noteq>
     powerLoop powerInit powerModuleLines \<and>
   currentSection (powerLoop powerInit (powerModuleLines @ [powerInterfaceLines ! 0])) =
     SectionInterface \<and>
   currentSection (powerLoop powerInit powerInterfaceLines) = SectionInterface \<and>
   Fields (powerModuleLines ! 0) \<noteq> [] \<and>
   \<not> interfaceShape (Fields (powerModuleLines ! 0)) \<and>
   currentSection (powerLoop powerInit (powerInterfaceLines @ [powerModuleLines ! 0])) =
     SectionModule"
  by code_simp

section \<open>Properties of the interface-status parser\<close>

lemma find_upt_Some:
  assumes "a \<le> j" "j < b" "P j" "\<forall>k. a \<le> k \<and> k < j \<longrightarrow> \<not> P k"
  shows "find P [a..<b] = Some j"
proof -
  have "\<exists>i<length [a..<b]. P ([a..<b] ! i) \<and> j = [a..<b] ! i \<and> (\<forall>k<i. \<not> P ([a..<b] ! k))"
  proof (intro exI [of _ "j - a"] conjI)
    show "j - a < length [a..<b]" using assms by simp
    show "P ([a..<b] ! (j - a))" using assms by simp
    show "j = [a..<b] ! (j - a)" using assms by simp
    show "\<forall>k<j - a. \<not> P ([a..<b] ! k)" using assms by auto
  qed
  then show ?thesis by (simp add: find_Some_iff)
qed

lemma map_filter_append:
  "List.map_filter f (xs @ ys) = List.map_filter f xs @ List.map_filter f ys"
  by (simp add: List.map_filter_def)

lemma drop_split_at:
  assumes "d \<le> i" "i < length xs"
  shows "drop d xs = take (i - d) (drop d xs) @ xs ! i # drop (Suc i) xs"
proof -
  have "drop d xs = take (i - d) (drop d xs) @ drop (i - d) (drop d xs)"
    by (simp only: append_take_drop_id)
  also have "drop (i - d) (drop d xs) = drop i xs"
    using assms by (simp add: drop_drop)
  also have "drop i xs = xs ! i # drop (Suc i) xs"
    using assms by (simp add: Cons_nth_drop_Suc)
  finally show ?thesis .
qed

lemma parseStatusLine_record:
  assumes "fs = Fields (TrimSpace l)" and "6 \<le> length fs"
    and "\<not> HasPrefix (TrimSpace l) ''----''" and "\<not> HasPrefix (TrimSpace l) ''Name''"
    and "1 \<le> j" and "j \<le> length fs - 5" and "isStatusWord (fs ! j)"
    and "\<forall>k. 1 \<le> k \<and> k < j \<longrightarrow> \<not> isStatusWord (fs ! k)"
  shows "parseStatusLine l =
     Some \<lparr>InterfaceStatus.Interface = fs ! 0,
           InterfaceStatus.Description = Join (subFields fs 1 j) '' '',
           InterfaceStatus.Status = fs ! j, InterfaceStatus.VlanID = fs ! (j + 1), InterfaceStatus.Duplex = fs ! (j + 2), InterfaceStatus.Speed = fs ! (j + 3),
           InterfaceStatus.Type = Join (drop (j + 4) fs) '' ''\<rparr>"
proof -
  have ne: "TrimSpace l \<noteq> []"
  proof
    assume "TrimSpace l = []"
    then have "fs = []" using assms(1) by (simp add: Fields_def)
    with assms(2) show False by simp
  qed
  have "j < length fs - 4" using assms(2,6) by arith
  then have "find (\<lambda>j. isStatusWord (fs ! j)) [1..<length fs - 4] = Some j"
    using assms(5,7,8) by (intro find_upt_Some) auto
  then show ?thesis
    using ne assms(1-4) by (simp add: parseStatusLine_def Let_def)
qed

text \<open>
  C3, as the code has it. Let the parser have found its header anchor, and take a line
  after it whose trimmed text starts neither with \<open>----\<close> nor with \<open>Name\<close>, splits into
  \<open>n \<ge> 6\<close> tokens, and has its first status keyword among the indices 1 to \<open>n - 5\<close> at
  index \<open>j\<close>. Then the output is the records of the earlier data lines, the record the
  claim describes, and the records of the later lines. The line of end-to-end case 3 gives
  the record of that case.
\<close>

theorem parseInterfaceStatus_line_record:
  assumes "statusDataStartIndex (Split raw newline) = Some d"
    and "d \<le> i" and "i < length (Split raw newline)"
    and "l = Split raw newline ! i"
    and "fs = Fields (TrimSpace l)" and "6 \<le> length fs"
    and "\<not> HasPrefix (TrimSpace l) ''----''" and "\<not> HasPrefix (TrimSpace l) ''Name''"
    and "1 \<le> j" and "j \<le> length fs - 5" and "isStatusWord (fs ! j)"
    and "\<forall>k. 1 \<le> k \<and> k < j \<longrightarrow> \<not> isStatusWord (fs ! k)"
  shows "parseInterfaceStatus raw =
     Inr (List.map_filter parseStatusLine (take (i - d) (drop d (Split raw newline))) @
          [\<lparr>InterfaceStatus.Interface = fs ! 0,
            InterfaceStatus.Description = Join (subFields fs 1 j) '' '',
            InterfaceStatus.Status = fs ! j, InterfaceStatus.VlanID = fs ! (j + 1), InterfaceStatus.Duplex = fs ! (j + 2), InterfaceStatus.Speed = fs ! (j + 3),
            InterfaceStatus.Type = Join (drop (j + 4) fs) '' ''\<rparr>] @
          List.map_filter parseStatusLine (drop (Suc i) (Split raw newline))) \<and>
     parseStatusLine ''Gi1/0/1  Uplink to core  connected  1  full  1000  10/100/1000BaseTX'' =
       Some \<lparr>InterfaceStatus.Interface = ''Gi1/0/1'', InterfaceStatus.Description = ''Uplink to core'',
             InterfaceStatus.Status = ''connected'', InterfaceStatus.VlanID = ''1'', InterfaceStatus.Duplex = ''full'', InterfaceStatus.Speed = ''1000'',
             InterfaceStatus.Type = ''10/100/1000BaseTX''\<rparr>"
proof
  let ?lines = "Split raw newline"
  let ?r = "\<lparr>InterfaceStatus.Interface = fs ! 0,
            InterfaceStatus.Description = Join (subFields fs 1 j) '' '',
            InterfaceStatus.Status = fs ! j, InterfaceStatus.VlanID = fs ! (j + 1), InterfaceStatus.Duplex = fs ! (j + 2), InterfaceStatus.Speed = fs ! (j + 3),
            InterfaceStatus.Type = Join (drop (j + 4) fs) '' ''\<rparr>"
  have rec: "parseStatusLine (?lines ! i) = Some ?r"
    using assms(4-12) parseStatusLine_record [of fs l j] by simp
  have split: "drop d ?lines = take (i - d) (drop d ?lines) @ ?lines ! i # drop (Suc i) ?lines"
    using assms(2,3) by (rule drop_split_at)
  have "List.map_filter parseStatusLine (drop d ?lines) =
      List.map_filter parseStatusLine (take (i - d) (drop d ?lines)) @ [?r] @
      List.map_filter parseStatusLine (drop (Suc i) ?lines)"
    by (subst split) (simp add: map_filter_append rec List.map_filter_simps)
  moreover have "\<not> length ?lines \<le> d" using assms(2,3) by simp
  ultimately show "parseInterfaceStatus raw =
     Inr (List.map_filter parseStatusLine (take (i - d) (drop d ?lines)) @ [?r] @
          List.map_filter parseStatusLine (drop (Suc i) ?lines))"
    using assms(1) by (simp add: parseInterfaceStatus_def Let_def)
next
  show "parseStatusLine ''Gi1/0/1  Uplink to core  connected  1  full  1000  10/100/1000BaseTX'' =
       Some \<lparr>InterfaceStatus.Interface = ''Gi1/0/1'', InterfaceStatus.Description = ''Uplink to core'',
             InterfaceStatus.Status = ''connected'', InterfaceStatus.VlanID = ''1'', InterfaceStatus.Duplex = ''full'', InterfaceStatus.Speed = ''1000'',
             InterfaceStatus.Type = ''10/100/1000BaseTX''\<rparr>"
    by code_simp
qed

theorem parseInterfaceStatus_line_record_witness:
  "statusDataStartIndex (Split (Join statusSample [newline]) newline) = Some 2 \<and>
   Fields (TrimSpace (Split (Join statusSample [newline]) newline ! 2)) =
     [''Gi1/0/1'', ''Uplink'', ''to'', ''core'', ''connected'', ''1'', ''full'', ''1000'',
      ''10/100/1000BaseTX''] \<and>
   parseInterfaceStatus (Join statusSample [newline]) =
     Inr [\<lparr>InterfaceStatus.Interface = ''Gi1/0/1'', InterfaceStatus.Description = ''Uplink to core'',
           InterfaceStatus.Status = ''connected'', InterfaceStatus.VlanID = ''1'', InterfaceStatus.Duplex = ''full'', InterfaceStatus.Speed = ''1000'',
           InterfaceStatus.Type = ''10/100/1000BaseTX''\<rparr>]"
proof -
  let ?raw = "Join statusSample [newline]"
  let ?fs = "[''Gi1/0/1'', ''Uplink'', ''to'', ''core'', ''connected'', ''1'', ''full'', ''1000'',
      ''10/100/1000BaseTX'']"
  have lines: "Split ?raw newline = statusSample" by code_simp
  have h1: "statusDataStartIndex (Split ?raw newline) = Some 2"
    unfolding lines by code_simp
  have h2: "(2::nat) \<le> 2" by simp
  have h3: "2 < length (Split ?raw newline)"
    unfolding lines by (simp add: statusSample_def)
  have h4: "statusSample ! 2 = Split ?raw newline ! 2"
    unfolding lines by simp
  have h5: "?fs = Fields (TrimSpace (statusSample ! 2))" by code_simp
  have h6: "6 \<le> length ?fs" by simp
  have h7: "\<not> HasPrefix (TrimSpace (statusSample ! 2)) ''----''" by code_simp
  have h8: "\<not> HasPrefix (TrimSpace (statusSample ! 2)) ''Name''" by code_simp
  have h9: "(1::nat) \<le> 4" by simp
  have h10: "4 \<le> length ?fs - 5" by simp
  have h11: "isStatusWord (?fs ! 4)" by (simp add: isStatusWord_def)
  have h12: "\<forall>k. 1 \<le> k \<and> k < 4 \<longrightarrow> \<not> isStatusWord (?fs ! k)"
  proof (intro allI impI)
    fix k :: nat
    assume "1 \<le> k \<and> k < 4"
    then have "k = 1 \<or> k = 2 \<or> k = 3" by arith
    then show "\<not> isStatusWord (?fs ! k)" by (auto simp: isStatusWord_def)
  qed
  have before: "List.map_filter parseStatusLine (take (2 - 2) (drop 2 statusSample)) = []"
    by (simp add: List.map_filter_simps)
  have after: "List.map_filter parseStatusLine (drop (Suc 2) statusSample) = []"
    by code_simp
  have "parseInterfaceStatus ?raw =
     Inr (List.map_filter parseStatusLine (take (2 - 2) (drop 2 (Split ?raw newline))) @
          [\<lparr>InterfaceStatus.Interface = ?fs ! 0,
            InterfaceStatus.Description = Join (subFields ?fs 1 4) '' '',
            InterfaceStatus.Status = ?fs ! 4, InterfaceStatus.VlanID = ?fs ! (4 + 1), InterfaceStatus.Duplex = ?fs ! (4 + 2), InterfaceStatus.Speed = ?fs ! (4 + 3),
            InterfaceStatus.Type = Join (drop (4 + 4) ?fs) '' ''\<rparr>] @
          List.map_filter parseStatusLine (drop (Suc 2) (Split ?raw newline)))"
    using parseInterfaceStatus_line_record [OF h1 h2 h3 h4 h5 h6 h7 h8 h9 h10 h11 h12] by blast
  then have "parseInterfaceStatus ?raw =
     Inr [\<lparr>InterfaceStatus.Interface = ''Gi1/0/1'', InterfaceStatus.Description = ''Uplink to core'',
           InterfaceStatus.Status = ''connected'', InterfaceStatus.VlanID = ''1'', InterfaceStatus.Duplex = ''full'', InterfaceStatus.Speed = ''1000'',
           InterfaceStatus.Type = ''10/100/1000BaseTX''\<rparr>]"
    unfolding lines before after by (simp add: subFields_def)
  moreover have "Fields (TrimSpace (Split ?raw newline ! 2)) = ?fs"
    using h4 h5 by simp
  ultimately show ?thesis using h1 by blast
qed

text \<open>
  C3 as stated fails on a data line that starts with \<open>Name\<close> (or with \<open>----\<close>): the last
  line of the sample has six tokens with \<open>connected\<close> at index 1, and the parser skips
  it as a secondary header.
\<close>

theorem parseInterfaceStatus_skips_Name_line:
  "statusDataStartIndex (Split (Join statusSample [newline]) newline) = Some 2 \<and>
   Split (Join statusSample [newline]) newline ! 3 =
     ''Name1/0/2  connected  1  full  1000  10/100/1000BaseTX'' \<and>
   Fields (TrimSpace ''Name1/0/2  connected  1  full  1000  10/100/1000BaseTX'') =
     [''Name1/0/2'', ''connected'', ''1'', ''full'', ''1000'', ''10/100/1000BaseTX''] \<and>
   isStatusWord ''connected'' \<and>
   parseStatusLine ''Name1/0/2  connected  1  full  1000  10/100/1000BaseTX'' = None \<and>
   parseInterfaceStatus (Join statusSample [newline]) =
     Inr [\<lparr>InterfaceStatus.Interface = ''Gi1/0/1'', InterfaceStatus.Description = ''Uplink to core'',
           InterfaceStatus.Status = ''connected'', InterfaceStatus.VlanID = ''1'', InterfaceStatus.Duplex = ''full'', InterfaceStatus.Speed = ''1000'',
           InterfaceStatus.Type = ''10/100/1000BaseTX''\<rparr>]"
  by code_simp

section \<open>Properties of the LLDP parser\<close>

lemma length_TrimRightCR: "length (TrimRightCR s) \<le> length s"
proof -
  have "length (dropWhile (\<lambda>c. c = CHR 0x0D) (rev s)) \<le> length (rev s)"
    by (rule length_dropWhile_le)
  then show ?thesis by (simp add: TrimRightCR_def)
qed

lemma Contains_iff: "Contains s sub \<longleftrightarrow> (\<exists>pre post. s = pre @ sub @ post)"
proof (induction s)
  case Nil
  then show ?case by auto
next
  case (Cons c cs)
  show ?case
  proof
    assume "Contains (c # cs) sub"
    then consider "prefix sub (c # cs)" | "Contains cs sub" by auto
    then show "\<exists>pre post. c # cs = pre @ sub @ post"
    proof cases
      case 1
      then obtain post where "c # cs = sub @ post" by (auto simp: prefix_def)
      then have "c # cs = [] @ sub @ post" by simp
      then show ?thesis by blast
    next
      case 2
      then obtain pre post where "cs = pre @ sub @ post" using Cons.IH by blast
      then have "c # cs = (c # pre) @ sub @ post" by simp
      then show ?thesis by blast
    qed
  next
    assume "\<exists>pre post. c # cs = pre @ sub @ post"
    then obtain pre post where e: "c # cs = pre @ sub @ post" by blast
    show "Contains (c # cs) sub"
    proof (cases pre)
      case Nil
      with e have "prefix sub (c # cs)" by (simp add: prefix_def)
      then show ?thesis by simp
    next
      case (Cons a pre')
      with e have "cs = pre' @ sub @ post" by simp
      then have "Contains cs sub" using Cons.IH by blast
      then show ?thesis by simp
    qed
  qed
qed

lemma TrimRightCR_decomp:
  "\<exists>crs. s = TrimRightCR s @ crs \<and> set crs \<subseteq> {CHR 0x0D}"
proof -
  let ?P = "\<lambda>c. c = CHR 0x0D"
  have "rev s = takeWhile ?P (rev s) @ dropWhile ?P (rev s)" by simp
  then have "s = rev (dropWhile ?P (rev s)) @ rev (takeWhile ?P (rev s))"
    by (metis rev_append rev_rev_ident)
  moreover have "set (rev (takeWhile ?P (rev s))) \<subseteq> {CHR 0x0D}"
    using set_takeWhileD by fastforce
  ultimately show ?thesis unfolding TrimRightCR_def by blast
qed

text \<open>A text that does not end in a carriage return is still found once they are trimmed.\<close>

lemma Contains_TrimRightCR:
  assumes "Contains s sub" and "sub \<noteq> []" and "last sub \<noteq> CHR 0x0D"
  shows "Contains (TrimRightCR s) sub"
proof -
  obtain pre post where e: "s = pre @ sub @ post" using assms(1) Contains_iff by blast
  obtain crs where d: "s = TrimRightCR s @ crs" and crs: "set crs \<subseteq> {CHR 0x0D}"
    using TrimRightCR_decomp by blast
  from e d have "(pre @ sub) @ post = TrimRightCR s @ crs" by simp
  then obtain us where
    "pre @ sub = TrimRightCR s @ us \<and> us @ post = crs \<or>
     (pre @ sub) @ us = TrimRightCR s \<and> post = us @ crs"
    unfolding append_eq_append_conv2 by blast
  then show ?thesis
  proof
    assume a: "pre @ sub = TrimRightCR s @ us \<and> us @ post = crs"
    have "us = []"
    proof (rule ccontr)
      assume "us \<noteq> []"
      then have "last (TrimRightCR s @ us) = last us" by simp
      moreover have "last (pre @ sub) = last sub" using assms(2) by simp
      ultimately have "last sub = last us" using a by simp
      moreover have "last us \<in> set crs" using a \<open>us \<noteq> []\<close> by auto
      ultimately show False using crs assms(3) by auto
    qed
    with a have "TrimRightCR s = pre @ sub @ []" by simp
    then show ?thesis using Contains_iff by blast
  next
    assume "(pre @ sub) @ us = TrimRightCR s \<and> post = us @ crs"
    then have "TrimRightCR s = pre @ sub @ us" by simp
    then show ?thesis using Contains_iff by blast
  qed
qed

text \<open>A line of white space only is still one once its carriage returns are trimmed.\<close>

lemma unicodeSpaces_nonempty: "u \<in> set unicodeSpaces \<Longrightarrow> u \<noteq> []"
  by (auto simp: unicodeSpaces_def)

lemma unicodeSpaces_no_CR: "u \<in> set unicodeSpaces \<Longrightarrow> CHR 0x0D \<notin> set u"
  by (auto simp: unicodeSpaces_def)

lemma spaceWidth_token:
  "u \<in> set unicodeSpaces \<Longrightarrow> spaceWidth (u @ r) = length u"
  by (auto simp: spaceWidth_def asciiSpace_def unicodeSpaces_def)

lemma spaceWidth_cases:
  assumes "spaceWidth s \<noteq> 0"
  shows "(\<exists>c rest. s = c # rest \<and> asciiSpace c \<and> spaceWidth s = 1) \<or>
         (\<exists>u rest. u \<in> set unicodeSpaces \<and> s = u @ rest \<and> spaceWidth s = length u)"
proof (cases s)
  case Nil
  with assms show ?thesis by simp
next
  case (Cons c rest)
  show ?thesis
  proof (cases "asciiSpace c")
    case True
    with Cons show ?thesis by (simp add: spaceWidth_def)
  next
    case False
    with Cons assms obtain u where u: "find (\<lambda>u. prefix u s) unicodeSpaces = Some u"
      by (auto simp: spaceWidth_def split: option.splits)
    then have "u \<in> set unicodeSpaces" and "prefix u s"
      by (auto simp: find_Some_iff)
    then obtain rest' where "s = u @ rest'" by (auto simp: prefix_def)
    moreover have "spaceWidth s = length u"
      using Cons False u by (simp add: spaceWidth_def)
    ultimately show ?thesis using \<open>u \<in> set unicodeSpaces\<close> by blast
  qed
qed

lemma spaceWidth_prefix:
  assumes "spaceWidth t \<noteq> 0" and "prefix t s"
  shows "spaceWidth s \<noteq> 0"
proof -
  from spaceWidth_cases [OF assms(1)] show ?thesis
  proof
    assume "\<exists>c rest. t = c # rest \<and> asciiSpace c \<and> spaceWidth t = 1"
    then obtain c rest where "t = c # rest" "asciiSpace c" by blast
    with assms(2) obtain rest' where "s = c # rest'" by (auto simp: prefix_def)
    with \<open>asciiSpace c\<close> show ?thesis by (simp add: spaceWidth_def)
  next
    assume "\<exists>u rest. u \<in> set unicodeSpaces \<and> t = u @ rest \<and> spaceWidth t = length u"
    then obtain u rest where u: "u \<in> set unicodeSpaces" "t = u @ rest" by blast
    with assms(2) obtain rest' where "s = u @ rest'" by (auto simp: prefix_def)
    then show ?thesis using spaceWidth_token [OF u(1)] unicodeSpaces_nonempty [OF u(1)] by simp
  qed
qed

lemma spaceWidth_trimLeftSpace: "spaceWidth (trimLeftSpace s) = 0"
proof (induction s rule: trimLeftSpace.induct)
  case (1 s)
  then show ?case by (cases "spaceWidth s = 0") (simp_all add: trimLeftSpace.simps [of s])
qed

lemma spaceWidthEnd_le: "spaceWidthEnd s \<le> length s"
proof (cases "s = []")
  case True
  then show ?thesis by simp
next
  case False
  show ?thesis
  proof (cases "asciiSpace (last s)")
    case True
    with False show ?thesis by (cases s) (simp_all add: spaceWidthEnd_def)
  next
    case no: False
    show ?thesis
    proof (cases "find (\<lambda>u. suffix u s) unicodeSpaces")
      case None
      with False no show ?thesis by (simp add: spaceWidthEnd_def)
    next
      case (Some u)
      then have "suffix u s" by (auto simp: find_Some_iff)
      then have "length u \<le> length s" by (rule suffix_length_le)
      with False no Some show ?thesis by (simp add: spaceWidthEnd_def)
    qed
  qed
qed

lemma whole_token:
  assumes "spaceWidthEnd s \<noteq> 0" and "length s \<le> spaceWidthEnd s"
  shows "spaceWidth s \<noteq> 0"
proof -
  have ne: "s \<noteq> []" using assms(1) by auto
  show ?thesis
  proof (cases "asciiSpace (last s)")
    case True
    with ne assms(2) have "length s \<le> 1" by (simp add: spaceWidthEnd_def)
    with ne obtain c where "s = [c]" by (cases s) auto
    with True show ?thesis by (simp add: spaceWidth_def)
  next
    case False
    with ne assms(1) obtain u where u: "find (\<lambda>u. suffix u s) unicodeSpaces = Some u"
      by (auto simp: spaceWidthEnd_def split: option.splits)
    then have m: "u \<in> set unicodeSpaces" and "suffix u s"
      by (auto simp: find_Some_iff)
    moreover have "length s \<le> length u"
      using assms(2) ne False u by (simp add: spaceWidthEnd_def)
    ultimately have "s = u"
      by (auto simp: suffix_def)
    then show ?thesis
      using spaceWidth_token [OF m, of "[]"] unicodeSpaces_nonempty [OF m] by simp
  qed
qed

lemma trimRightSpace_Nil: "trimRightSpace t = [] \<Longrightarrow> t = [] \<or> spaceWidth t \<noteq> 0"
proof (induction t rule: trimRightSpace.induct)
  case (1 s)
  show ?case
  proof (cases "spaceWidthEnd s = 0")
    case True
    with "1.prems" show ?thesis by (simp add: trimRightSpace.simps [of s])
  next
    case False
    let ?t = "take (length s - spaceWidthEnd s) s"
    have "trimRightSpace ?t = []"
      using "1.prems" False by (simp add: trimRightSpace.simps [of s])
    then have "?t = [] \<or> spaceWidth ?t \<noteq> 0" using "1.IH" False by blast
    then show ?thesis
    proof
      assume "?t = []"
      then have "length s \<le> spaceWidthEnd s \<or> s = []" by auto
      then show ?thesis using whole_token [OF False] by auto
    next
      assume "spaceWidth ?t \<noteq> 0"
      moreover have "prefix ?t s" by (rule take_is_prefix)
      ultimately show ?thesis using spaceWidth_prefix by blast
    qed
  qed
qed

lemma TrimSpace_Nil_iff: "TrimSpace s = [] \<longleftrightarrow> trimLeftSpace s = []"
proof
  assume "TrimSpace s = []"
  then have "trimLeftSpace s = [] \<or> spaceWidth (trimLeftSpace s) \<noteq> 0"
    unfolding TrimSpace_def by (rule trimRightSpace_Nil)
  then show "trimLeftSpace s = []" by (simp add: spaceWidth_trimLeftSpace)
next
  assume "trimLeftSpace s = []"
  then show "TrimSpace s = []"
    by (simp add: TrimSpace_def trimRightSpace.simps [of "[]"])
qed

lemma TrimRightCR_Cons:
  "TrimRightCR (c # rest) =
     (if TrimRightCR rest = [] \<and> c = CHR 0x0D then [] else c # TrimRightCR rest)"
  by (auto simp: TrimRightCR_def dropWhile_append dropWhile_eq_Nil_conv)

lemma TrimRightCR_token: "CHR 0x0D \<notin> set u \<Longrightarrow> TrimRightCR (u @ rest) = u @ TrimRightCR rest"
  by (induction u) (auto simp: TrimRightCR_Cons)

lemma trimLeftSpace_Nil: "trimLeftSpace [] = []"
  by (simp add: trimLeftSpace.simps [of "[]"])

lemma trimLeftSpace_TrimRightCR:
  "trimLeftSpace s = [] \<Longrightarrow> trimLeftSpace (TrimRightCR s) = []"
proof (induction s rule: trimLeftSpace.induct)
  case (1 s)
  show ?case
  proof (cases "spaceWidth s = 0")
    case True
    with "1.prems" have "s = []" by (simp add: trimLeftSpace.simps [of s])
    then show ?thesis by (simp add: TrimRightCR_def trimLeftSpace_Nil)
  next
    case False
    have "trimLeftSpace (drop (spaceWidth s) s) = []"
      using "1.prems" False by (simp add: trimLeftSpace.simps [of s])
    then have ih: "trimLeftSpace (TrimRightCR (drop (spaceWidth s) s)) = []"
      using "1.IH" False by blast
    from spaceWidth_cases [OF False] show ?thesis
    proof
      assume "\<exists>c rest. s = c # rest \<and> asciiSpace c \<and> spaceWidth s = 1"
      then obtain c rest where s: "s = c # rest" "asciiSpace c" "spaceWidth s = 1" by blast
      with ih have r: "trimLeftSpace (TrimRightCR rest) = []" by simp
      show ?thesis
      proof (cases "TrimRightCR rest = [] \<and> c = CHR 0x0D")
        case True
        then show ?thesis
          using s(1) by (simp add: TrimRightCR_Cons trimLeftSpace_Nil)
      next
        case no: False
        have w: "spaceWidth (c # TrimRightCR rest) = 1"
          using s(2) by (simp add: spaceWidth_def)
        have "trimLeftSpace (c # TrimRightCR rest) = trimLeftSpace (TrimRightCR rest)"
          using w by (simp add: trimLeftSpace.simps [of "c # TrimRightCR rest"])
        with r no s(1) show ?thesis by (auto simp: TrimRightCR_Cons)
      qed
    next
      assume "\<exists>u rest. u \<in> set unicodeSpaces \<and> s = u @ rest \<and> spaceWidth s = length u"
      then obtain u rest where u: "u \<in> set unicodeSpaces" "s = u @ rest"
        "spaceWidth s = length u" by blast
      with ih have r: "trimLeftSpace (TrimRightCR rest) = []" by simp
      have t: "TrimRightCR s = u @ TrimRightCR rest"
        using u(1,2) by (simp add: TrimRightCR_token unicodeSpaces_no_CR)
      have w: "spaceWidth (u @ TrimRightCR rest) = length u"
        using u(1) by (rule spaceWidth_token)
      have "length u \<noteq> 0" using unicodeSpaces_nonempty [OF u(1)] by simp
      then have "trimLeftSpace (u @ TrimRightCR rest) = trimLeftSpace (TrimRightCR rest)"
        using w by (simp add: trimLeftSpace.simps [of "u @ TrimRightCR rest"])
      with r t show ?thesis by simp
    qed
  qed
qed

lemma blank_TrimRightCR: "TrimSpace s = [] \<Longrightarrow> TrimSpace (TrimRightCR s) = []"
  by (simp add: TrimSpace_Nil_iff trimLeftSpace_TrimRightCR)

lemma lldpLine_skip:
  assumes "TrimSpace (TrimRightCR raw) = [] \<or>
           Contains (TrimRightCR raw) ''Total entries displayed'' \<or>
           length (TrimRightCR raw) < lldpColumns.portIDIndex cols"
  shows "lldpLine cols raw = Inr None"
  using assms by (auto simp: lldpLine_def Let_def)

lemma lldpLine_record:
  assumes "lldpColumns.deviceIDIndex cols \<le> lldpColumns.localIntfIndex cols"
    and "lldpColumns.localIntfIndex cols \<le> lldpColumns.holdtmeIndex cols"
    and "lldpColumns.holdtmeIndex cols \<le> lldpColumns.capabilityIndex cols"
    and "lldpColumns.capabilityIndex cols \<le> lldpColumns.portIDIndex cols"
    and "TrimSpace (TrimRightCR raw) \<noteq> []"
    and "\<not> Contains (TrimRightCR raw) ''Total entries displayed''"
    and "lldpColumns.portIDIndex cols \<le> length (TrimRightCR raw)"
  shows "slice (TrimRightCR raw) (lldpColumns.localIntfIndex cols) (lldpColumns.holdtmeIndex cols) \<noteq> None \<and>
         slice (TrimRightCR raw) (lldpColumns.deviceIDIndex cols) (lldpColumns.localIntfIndex cols) \<noteq> None \<and>
         sliceFrom (TrimRightCR raw) (lldpColumns.portIDIndex cols) \<noteq> None \<and>
         slice (TrimRightCR raw) (lldpColumns.holdtmeIndex cols) (lldpColumns.capabilityIndex cols) \<noteq> None \<and>
         slice (TrimRightCR raw) (lldpColumns.capabilityIndex cols) (lldpColumns.portIDIndex cols) \<noteq> None \<and>
         (\<exists>r. lldpLine cols raw = Inr (Some r))"
  using assms by (simp add: lldpLine_def Let_def slice_def sliceFrom_def)

lemma lldpLine_total:
  assumes "lldpColumns.deviceIDIndex cols \<le> lldpColumns.localIntfIndex cols"
    and "lldpColumns.localIntfIndex cols \<le> lldpColumns.holdtmeIndex cols"
    and "lldpColumns.holdtmeIndex cols \<le> lldpColumns.capabilityIndex cols"
    and "lldpColumns.capabilityIndex cols \<le> lldpColumns.portIDIndex cols"
  shows "\<exists>r. lldpLine cols raw = Inr r"
proof (cases "TrimSpace (TrimRightCR raw) = [] \<or>
           Contains (TrimRightCR raw) ''Total entries displayed'' \<or>
           length (TrimRightCR raw) < lldpColumns.portIDIndex cols")
  case True
  then show ?thesis using lldpLine_skip by blast
next
  case False
  then show ?thesis using lldpLine_record [OF assms, of raw] by auto
qed

lemma lldpLoop_total:
  assumes "lldpColumns.deviceIDIndex cols \<le> lldpColumns.localIntfIndex cols"
    and "lldpColumns.localIntfIndex cols \<le> lldpColumns.holdtmeIndex cols"
    and "lldpColumns.holdtmeIndex cols \<le> lldpColumns.capabilityIndex cols"
    and "lldpColumns.capabilityIndex cols \<le> lldpColumns.portIDIndex cols"
  shows "\<exists>ns. lldpLoop cols acc ls = Inr ns"
proof (induction ls arbitrary: acc)
  case Nil
  then show ?case by simp
next
  case (Cons x xs)
  obtain r where r: "lldpLine cols x = Inr r"
    using lldpLine_total [OF assms] by blast
  show ?case
  proof (cases r)
    case None
    with r Cons show ?thesis by simp
  next
    case (Some n)
    with r Cons show ?thesis by simp
  qed
qed

text \<open>
  C10. Let the header line be found and hold the five labels at offsets ordered
  \<open>d \<le> l \<le> h \<le> c \<le> p\<close>. Then \<open>parseLldpNeighbors\<close> returns a list of records: no
  slice expression panics. A line shorter than the Port ID offset, a blank line and a
  line containing \<open>Total entries displayed\<close> give no record, whether the test is made
  on the line as it stands or, as the loop makes it, once its trailing carriage returns
  are removed; for every other line the five slice expressions are within bounds and the
  line gives a record.
\<close>

theorem parseLldpNeighbors_total:
  assumes "lldpHeaderFrom 0 (Split raw newline) = Some (hdr, start)"
    and "Index hdr ''Device ID'' = Some d" and "Index hdr ''Local Intf'' = Some l"
    and "Index hdr ''Hold-time'' = Some h" and "Index hdr ''Capability'' = Some c"
    and "Index hdr ''Port ID'' = Some p"
    and "d \<le> l" and "l \<le> h" and "h \<le> c" and "c \<le> p"
    and "cols = \<lparr>lldpColumns.deviceIDIndex = d, lldpColumns.localIntfIndex = l, lldpColumns.holdtmeIndex = h,
                  lldpColumns.capabilityIndex = c, lldpColumns.portIDIndex = p\<rparr>"
  shows "(\<exists>ns. parseLldpNeighbors raw = Inr ns) \<and>
     (length x < p \<or> TrimSpace x = [] \<or> Contains x ''Total entries displayed'' \<or>
      length (TrimRightCR x) < p \<or> TrimSpace (TrimRightCR x) = [] \<or>
      Contains (TrimRightCR x) ''Total entries displayed'' \<longrightarrow> lldpLine cols x = Inr None) \<and>
     (\<not> (length (TrimRightCR x) < p \<or> TrimSpace (TrimRightCR x) = [] \<or>
         Contains (TrimRightCR x) ''Total entries displayed'') \<longrightarrow>
        slice (TrimRightCR x) l h \<noteq> None \<and> slice (TrimRightCR x) d l \<noteq> None \<and>
        sliceFrom (TrimRightCR x) p \<noteq> None \<and> slice (TrimRightCR x) h c \<noteq> None \<and>
        slice (TrimRightCR x) c p \<noteq> None \<and> (\<exists>r. lldpLine cols x = Inr (Some r)))"
proof -
  have o: "lldpColumns.deviceIDIndex cols \<le> lldpColumns.localIntfIndex cols" "lldpColumns.localIntfIndex cols \<le> lldpColumns.holdtmeIndex cols"
    "lldpColumns.holdtmeIndex cols \<le> lldpColumns.capabilityIndex cols" "lldpColumns.capabilityIndex cols \<le> lldpColumns.portIDIndex cols"
    using assms(7-11) by simp_all
  have "parseLldpNeighbors raw = lldpLoop cols [] (drop start (Split raw newline))"
    using assms(1-6,11) by (simp add: parseLldpNeighbors_def Let_def)
  then have total: "\<exists>ns. parseLldpNeighbors raw = Inr ns"
    using lldpLoop_total [OF o] by simp
  have skip: "lldpLine cols x = Inr None"
    if "length x < p \<or> TrimSpace x = [] \<or> Contains x ''Total entries displayed'' \<or>
      length (TrimRightCR x) < p \<or> TrimSpace (TrimRightCR x) = [] \<or>
      Contains (TrimRightCR x) ''Total entries displayed''"
  proof -
    have "length x < p \<Longrightarrow> length (TrimRightCR x) < p"
      using length_TrimRightCR [of x] by arith
    moreover have "TrimSpace x = [] \<Longrightarrow> TrimSpace (TrimRightCR x) = []"
      by (rule blank_TrimRightCR)
    moreover have "Contains x ''Total entries displayed'' \<Longrightarrow>
        Contains (TrimRightCR x) ''Total entries displayed''"
      by (rule Contains_TrimRightCR) simp_all
    ultimately have "TrimSpace (TrimRightCR x) = [] \<or>
           Contains (TrimRightCR x) ''Total entries displayed'' \<or>
           length (TrimRightCR x) < lldpColumns.portIDIndex cols"
      using that assms(11) by auto
    then show ?thesis by (rule lldpLine_skip)
  qed
  have rec: "slice (TrimRightCR x) l h \<noteq> None \<and> slice (TrimRightCR x) d l \<noteq> None \<and>
        sliceFrom (TrimRightCR x) p \<noteq> None \<and> slice (TrimRightCR x) h c \<noteq> None \<and>
        slice (TrimRightCR x) c p \<noteq> None \<and> (\<exists>r. lldpLine cols x = Inr (Some r))"
    if "\<not> (length (TrimRightCR x) < p \<or> TrimSpace (TrimRightCR x) = [] \<or>
         Contains (TrimRightCR x) ''Total entries displayed'')"
  proof -
    from that have "TrimSpace (TrimRightCR x) \<noteq> []"
      "\<not> Contains (TrimRightCR x) ''Total entries displayed''"
      "lldpColumns.portIDIndex cols \<le> length (TrimRightCR x)"
      using assms(11) by auto
    from lldpLine_record [OF o this] show ?thesis using assms(11) by simp
  qed
  from total skip rec show ?thesis by blast
qed

theorem parseLldpNeighbors_total_witness:
  "lldpHeaderFrom 0 (Split (Join lldpSample [newline]) newline) = Some (lldpSample ! 0, 1) \<and>
   Index (lldpSample ! 0) ''Device ID'' = Some 0 \<and> Index (lldpSample ! 0) ''Local Intf'' = Some 20 \<and>
   Index (lldpSample ! 0) ''Hold-time'' = Some 35 \<and> Index (lldpSample ! 0) ''Capability'' = Some 46 \<and>
   Index (lldpSample ! 0) ''Port ID'' = Some 62 \<and>
   (\<exists>ns. parseLldpNeighbors (Join lldpSample [newline]) = Inr ns) \<and>
   length (lldpSample ! 2) < 62 \<and>
   lldpLine \<lparr>lldpColumns.deviceIDIndex = 0, lldpColumns.localIntfIndex = 20, lldpColumns.holdtmeIndex = 35,
             lldpColumns.capabilityIndex = 46, lldpColumns.portIDIndex = 62\<rparr> (lldpSample ! 2) = Inr None \<and>
   \<not> (length (TrimRightCR (lldpSample ! 1)) < 62 \<or> TrimSpace (TrimRightCR (lldpSample ! 1)) = [] \<or>
       Contains (TrimRightCR (lldpSample ! 1)) ''Total entries displayed'') \<and>
   (\<exists>r. lldpLine \<lparr>lldpColumns.deviceIDIndex = 0, lldpColumns.localIntfIndex = 20, lldpColumns.holdtmeIndex = 35,
             lldpColumns.capabilityIndex = 46, lldpColumns.portIDIndex = 62\<rparr> (lldpSample ! 1) = Inr (Some r))"
proof -
  let ?raw = "Join lldpSample [newline]"
  let ?cols = "\<lparr>lldpColumns.deviceIDIndex = 0, lldpColumns.localIntfIndex = 20, lldpColumns.holdtmeIndex = 35,
             lldpColumns.capabilityIndex = 46, lldpColumns.portIDIndex = 62\<rparr>"
  have h1: "lldpHeaderFrom 0 (Split ?raw newline) = Some (lldpSample ! 0, 1)" by code_simp
  have h2: "Index (lldpSample ! 0) ''Device ID'' = Some 0" by code_simp
  have h3: "Index (lldpSample ! 0) ''Local Intf'' = Some 20" by code_simp
  have h4: "Index (lldpSample ! 0) ''Hold-time'' = Some 35" by code_simp
  have h5: "Index (lldpSample ! 0) ''Capability'' = Some 46" by code_simp
  have h6: "Index (lldpSample ! 0) ''Port ID'' = Some 62" by code_simp
  have o: "(0::nat) \<le> 20" "(20::nat) \<le> 35" "(35::nat) \<le> 46" "(46::nat) \<le> 62" by simp_all
  have s: "length (lldpSample ! 2) < 62" by (simp add: lldpSample_def)
  have n: "\<not> (length (TrimRightCR (lldpSample ! 1)) < 62 \<or> TrimSpace (TrimRightCR (lldpSample ! 1)) = [] \<or>
       Contains (TrimRightCR (lldpSample ! 1)) ''Total entries displayed'')" by code_simp
  note t2 = parseLldpNeighbors_total [OF h1 h2 h3 h4 h5 h6 o refl, where x = "lldpSample ! 2"]
  note t1 = parseLldpNeighbors_total [OF h1 h2 h3 h4 h5 h6 o refl, where x = "lldpSample ! 1"]
  have c1: "\<exists>ns. parseLldpNeighbors ?raw = Inr ns" using t1 by blast
  have c2: "lldpLine ?cols (lldpSample ! 2) = Inr None" using t2 s by blast
  have c3: "\<exists>r. lldpLine ?cols (lldpSample ! 1) = Inr (Some r)" using t1 n by blast
  from h1 h2 h3 h4 h5 h6 c1 s c2 n c3 show ?thesis by blast
qed

section \<open>Properties of the CDP parser\<close>

text \<open>
  C1, as the code has it. The parser reads the offset of the local-interface column from
  the label \<open>Local Intrfce\<close>. With that label in the header of the blob of end-to-end
  case 1, the columns where the case has them, \<open>parseCdpNeighbors\<close> returns the one
  record and \<open>Show_cdp_neighbors\<close> returns it with both interface names normalized, and
  no failure.
\<close>

theorem cdp_case1_with_Local_Intrfce:
  "parseCdpNeighbors cdpCase1Intrfce =
     Inr [\<lparr>Neighbor = ''switch-core.local'', CdpNeighbor.Interface = ''Gig 1/0/1'',
           HoldTime = ''120'', Capability = ''R S I'', Platform = ''WS-C3850'',
           NeighborInterface = ''Gig 1/0/24''\<rparr>] \<and>
   Show_cdp_neighbors (Inr cdpCase1Intrfce) =
     Inr [\<lparr>Neighbor = ''switch-core.local'', CdpNeighbor.Interface = ''Gi1/0/1'',
           HoldTime = ''120'', Capability = ''R S I'', Platform = ''WS-C3850'',
           NeighborInterface = ''Gi1/0/24''\<rparr>]"
  by code_simp

text \<open>
  C1 as stated fails: the header of the blob reads \<open>Local Intf\<close>, the label
  \<open>Local Intrfce\<close> is absent, the parser returns its header-columns error, and
  \<open>Show_cdp_neighbors\<close> logs the error and returns no record.
\<close>

theorem cdp_case1_no_record:
  "Index ''Device ID        Local Intf     Hldtme   Capability  Platform  Port ID''
     ''Local Intrfce'' = None \<and>
   parseCdpNeighbors cdpCase1 = Inl CdpHeaderColumns \<and>
   Show_cdp_neighbors (Inr cdpCase1) = Inr [] \<and>
   Show_cdp_neighbors (Inr cdpCase1) \<noteq>
     Inr [\<lparr>Neighbor = ''switch-core.local'', CdpNeighbor.Interface = ''Gi1/0/1'',
           HoldTime = ''120'', Capability = ''R S I'', Platform = ''WS-C3850'',
           NeighborInterface = ''Gi1/0/24''\<rparr>]"
  by code_simp

section \<open>Properties of the device-identity parser\<close>

lemma below_NumField:
  "i < NumField \<longleftrightarrow> i = 0 \<or> i = 1 \<or> i = 2 \<or> i = 3 \<or> i = 4 \<or> i = 5 \<or> i = 6 \<or> i = 7 \<or> i = 8"
  unfolding NumField_def by arith

lemma getField_setField_same: "i < NumField \<Longrightarrow> getField (setField info i x) i = x"
  unfolding below_NumField by (elim disjE) (simp_all add: getField_def setField_def)

lemma getField_setField_other:
  "i < NumField \<Longrightarrow> j < NumField \<Longrightarrow> i \<noteq> j \<Longrightarrow> getField (setField info j x) i = getField info i"
  unfolding below_NumField by (elim disjE) (simp_all add: getField_def setField_def)

lemma getField_versionField:
  assumes "i < NumField" and "j < NumField"
  shows "getField (versionField cl info j) i =
     (if i = j then fieldValue j (getField info j) cl else getField info i)"
  using assms
  by (auto simp: versionField_def fieldValue_def getField_setField_same getField_setField_other
      split: option.splits)

lemma getField_foldl_versionField:
  assumes "i < NumField" and "\<forall>j \<in> set js. j < NumField" and "distinct js"
  shows "getField (foldl (versionField cl) info js) i =
     (if i \<in> set js then fieldValue i (getField info i) cl else getField info i)"
  using assms(2,3)
proof (induction js arbitrary: info)
  case Nil
  then show ?case by simp
next
  case (Cons j js)
  then show ?case
    using assms(1) by (auto simp: getField_versionField)
qed

lemma getField_versionLine:
  assumes "i < NumField"
  shows "getField (versionLine info line) i = fieldValue i (getField info i) (TrimSpace line)"
proof -
  have "getField (foldl (versionField (TrimSpace line)) info [0..<NumField]) i =
     (if i \<in> set [0..<NumField] then fieldValue i (getField info i) (TrimSpace line)
      else getField info i)"
    using assms by (intro getField_foldl_versionField) auto
  then show ?thesis using assms by (simp add: versionLine_def)
qed

lemma getField_foldl_versionLine:
  assumes "i < NumField"
  shows "getField (foldl versionLine info lines) i =
     foldl (fieldValue i) (getField info i) (map TrimSpace lines)"
  using assms by (induction lines arbitrary: info) (simp_all add: getField_versionLine)

lemma getField_versionInit: "i < NumField \<Longrightarrow> getField versionInit i = []"
  unfolding below_NumField by (elim disjE) (simp_all add: getField_def versionInit_def)

lemma getField_versionScan:
  assumes "i < NumField"
  shows "getField (versionScan lines) i = foldl (fieldValue i) [] (map TrimSpace lines)"
  using assms by (simp add: versionScan_def getField_foldl_versionLine getField_versionInit)

lemma fieldValue_kept: "cur \<noteq> [] \<Longrightarrow> foldl (fieldValue i) cur xs = cur"
  by (induction xs) (simp_all add: fieldValue_def)

lemma fieldValue_none:
  assumes "regexes (fieldName i) = Some rx" and "\<forall>cl \<in> set xs. fieldCapture rx cl = None"
  shows "foldl (fieldValue i) [] xs = []"
  using assms by (induction xs) (simp_all add: fieldValue_def)

lemma firstGroup_nonempty: "firstGroup ms = Some m \<Longrightarrow> m \<noteq> []"
  by (auto simp: firstGroup_def find_Some_iff)

lemma fieldCapture_nonempty: "fieldCapture rx cl = Some m \<Longrightarrow> m \<noteq> []"
  by (auto simp: fieldCapture_def firstGroup_nonempty split: option.splits if_splits)

lemma fieldValue_first:
  assumes "regexes (fieldName i) = Some rx" and "\<forall>cl \<in> set pre. fieldCapture rx cl = None"
    and "fieldCapture rx l = Some v"
  shows "foldl (fieldValue i) [] (pre @ l # post) = v"
proof -
  have "foldl (fieldValue i) [] pre = []"
    using assms(1,2) by (rule fieldValue_none)
  moreover have "fieldValue i [] l = v"
    using assms(1,3) by (simp add: fieldValue_def)
  moreover have "v \<noteq> []" using assms(3) by (rule fieldCapture_nonempty)
  ultimately show ?thesis by (simp add: fieldValue_kept)
qed

lemma no_match_no_capture: "FindStringSubmatch rx cl = None \<Longrightarrow> fieldCapture rx cl = None"
  by (simp add: fieldCapture_def)

lemma fieldName_inject:
  "i < NumField \<Longrightarrow> j < NumField \<Longrightarrow> fieldName i = fieldName j \<Longrightarrow> i = j"
  unfolding below_NumField by (elim disjE) (simp_all add: fieldName_def)

lemma foldl_map_upd_lookup:
  assumes "\<forall>j \<in> set js. k j = k i \<longrightarrow> j = i"
  shows "foldl (\<lambda>result j. if P j then result(k j \<mapsto> v j) else result) m js (k i) =
     (if i \<in> set js \<and> P i then Some (v i) else m (k i))"
  using assms by (induction js arbitrary: m) auto

lemma versionMap_lookup:
  assumes "i < NumField"
  shows "versionMap info (fieldName i) =
     (if getField info i \<noteq> [] then Some (getField info i) else None)"
proof -
  have "\<forall>j \<in> set [0..<NumField]. fieldName j = fieldName i \<longrightarrow> j = i"
    using assms fieldName_inject by auto
  from foldl_map_upd_lookup [of "[0..<NumField]" fieldName i "\<lambda>j. getField info j \<noteq> []"
      "getField info" Map.empty, OF this]
  show ?thesis using assms by (simp add: versionMap_def)
qed

lemma Version_getField: "Version info = getField info 1"
  by (simp add: getField_def)

lemma SerialNumber_getField: "SerialNumber info = getField info 4"
  by (simp add: getField_def)

lemma versionMap_Version:
  "versionMap info ''Version'' = (if Version info \<noteq> [] then Some (Version info) else None)"
  using versionMap_lookup [of 1 info] by (simp add: NumField_def fieldName_def getField_def)

lemma versionMap_SerialNumber:
  "versionMap info ''SerialNumber'' =
     (if SerialNumber info \<noteq> [] then Some (SerialNumber info) else None)"
  using versionMap_lookup [of 4 info] by (simp add: NumField_def fieldName_def getField_def)

lemma Version_versionScan:
  "Version (versionScan lines) = foldl (fieldValue 1) [] (map TrimSpace lines)"
  by (simp add: Version_getField getField_versionScan NumField_def)

lemma SerialNumber_versionScan:
  "SerialNumber (versionScan lines) = foldl (fieldValue 4) [] (map TrimSpace lines)"
  by (simp add: SerialNumber_getField getField_versionScan NumField_def)

lemma regexes_Version: "regexes (fieldName 1) = Some reVersion"
  by (simp add: regexes_def fieldName_def)

lemma regexes_SerialNumber: "regexes (fieldName 4) = Some reSerialNumber"
  by (simp add: regexes_def fieldName_def)

text \<open>
  C4. \<open>parseVersionInfo\<close> fails, with its one error, exactly when the scan of the whole
  blob has left \<open>Version\<close> or \<open>SerialNumber\<close> empty. On success the map holds both
  keys, with the non-empty values of the two fields. A blob of which no line matches the
  \<open>Version\<close> expression and no line matches the \<open>SerialNumber\<close> expression fails.
\<close>

theorem parseVersionInfo_fails_iff:
  "(isl (parseVersionInfo raw) \<longleftrightarrow>
      Version (versionScan (Split raw newline)) = [] \<or>
      SerialNumber (versionScan (Split raw newline)) = []) \<and>
   (isl (parseVersionInfo raw) \<longrightarrow> parseVersionInfo raw = Inl EssentialVersionInfo) \<and>
   (parseVersionInfo raw = Inr result \<longrightarrow>
      result ''Version'' = Some (Version (versionScan (Split raw newline))) \<and>
      Version (versionScan (Split raw newline)) \<noteq> [] \<and>
      result ''SerialNumber'' = Some (SerialNumber (versionScan (Split raw newline))) \<and>
      SerialNumber (versionScan (Split raw newline)) \<noteq> []) \<and>
   ((\<forall>line \<in> set (Split raw newline). FindStringSubmatch reVersion (TrimSpace line) = None) \<and>
    (\<forall>line \<in> set (Split raw newline). FindStringSubmatch reSerialNumber (TrimSpace line) = None) \<longrightarrow>
      parseVersionInfo raw = Inl EssentialVersionInfo)"
proof -
  let ?info = "versionScan (Split raw newline)"
  have p1: "isl (parseVersionInfo raw) \<longleftrightarrow> Version ?info = [] \<or> SerialNumber ?info = []"
    by (simp add: parseVersionInfo_def Let_def)
  have p2: "isl (parseVersionInfo raw) \<longrightarrow> parseVersionInfo raw = Inl EssentialVersionInfo"
    by (simp add: parseVersionInfo_def Let_def)
  have p3: "result ''Version'' = Some (Version ?info) \<and> Version ?info \<noteq> [] \<and>
      result ''SerialNumber'' = Some (SerialNumber ?info) \<and> SerialNumber ?info \<noteq> []"
    if "parseVersionInfo raw = Inr result"
  proof -
    from that have ne: "Version ?info \<noteq> []" "SerialNumber ?info \<noteq> []"
      and res: "result = versionMap ?info"
      by (auto simp: parseVersionInfo_def Let_def split: if_splits)
    show ?thesis
      using ne res by (simp add: versionMap_Version versionMap_SerialNumber)
  qed
  have p4: "parseVersionInfo raw = Inl EssentialVersionInfo"
    if "\<forall>line \<in> set (Split raw newline). FindStringSubmatch reVersion (TrimSpace line) = None"
  proof -
    have "\<forall>cl \<in> set (map TrimSpace (Split raw newline)). fieldCapture reVersion cl = None"
      using that by (auto simp: no_match_no_capture)
    then have "foldl (fieldValue 1) [] (map TrimSpace (Split raw newline)) = []"
      using regexes_Version by (rule fieldValue_none [rotated])
    then have "Version ?info = []"
      by (simp add: Version_versionScan)
    then show ?thesis by (simp add: parseVersionInfo_def Let_def)
  qed
  from p1 p2 p3 p4 show ?thesis by blast
qed

theorem parseVersionInfo_fails_iff_witness:
  "\<not> isl (parseVersionInfo (Join versionSample [newline])) \<and>
   (\<exists>result. parseVersionInfo (Join versionSample [newline]) = Inr result \<and>
      result ''Version'' = Some ''15.2(4)E'' \<and> result ''SerialNumber'' = Some ''FDO1234X0AB'') \<and>
   Split ''% Invalid input'' newline = [''% Invalid input''] \<and>
   FindStringSubmatch reVersion (TrimSpace ''% Invalid input'') = None \<and>
   FindStringSubmatch reSerialNumber (TrimSpace ''% Invalid input'') = None \<and>
   isl (parseVersionInfo ''% Invalid input'') \<and>
   parseVersionInfo ''% Invalid input'' = Inl EssentialVersionInfo"
proof -
  let ?raw = "Join versionSample [newline]"
  have lines: "Split ?raw newline = versionSample" by code_simp
  have "foldl (fieldValue 1) [] (map TrimSpace versionSample) = ''15.2(4)E''" by code_simp
  then have v: "Version (versionScan versionSample) = ''15.2(4)E''"
    by (simp only: Version_versionScan)
  have "foldl (fieldValue 4) [] (map TrimSpace versionSample) = ''FDO1234X0AB''" by code_simp
  then have s: "SerialNumber (versionScan versionSample) = ''FDO1234X0AB''"
    by (simp only: SerialNumber_versionScan)
  have a1: "\<not> isl (parseVersionInfo ?raw)"
    using parseVersionInfo_fails_iff [of ?raw] v s unfolding lines by simp
  then obtain result where r: "parseVersionInfo ?raw = Inr result"
    by (cases "parseVersionInfo ?raw") auto
  have a2: "result ''Version'' = Some ''15.2(4)E'' \<and> result ''SerialNumber'' = Some ''FDO1234X0AB''"
    using parseVersionInfo_fails_iff [of ?raw result] r v s unfolding lines by simp
  have l: "Split ''% Invalid input'' newline = [''% Invalid input'']" by code_simp
  have m1: "FindStringSubmatch reVersion (TrimSpace ''% Invalid input'') = None" by code_simp
  have m2: "FindStringSubmatch reSerialNumber (TrimSpace ''% Invalid input'') = None" by code_simp
  have n1: "\<forall>line \<in> set (Split ''% Invalid input'' newline).
      FindStringSubmatch reVersion (TrimSpace line) = None" using l m1 by simp
  have n2: "\<forall>line \<in> set (Split ''% Invalid input'' newline).
      FindStringSubmatch reSerialNumber (TrimSpace line) = None" using l m2 by simp
  have a3: "parseVersionInfo ''% Invalid input'' = Inl EssentialVersionInfo"
    using parseVersionInfo_fails_iff [of "''% Invalid input''"] n1 n2 by blast
  then have a4: "isl (parseVersionInfo ''% Invalid input'')" by simp
  from a1 r a2 l m1 m2 a3 a4 show ?thesis by blast
qed

text \<open>
  C6, as the code has it. For every field, the value after the scan is the value of the
  earliest line that gives the field one: the first capture group, in order, of the match
  on the trimmed line that is not empty once trimmed. A line whose match has no such group
  gives no value and leaves the field open to a later line. Once the field has a value,
  every later line leaves it unchanged, and the map \<open>parseVersionInfo\<close> returns holds it.
\<close>

theorem first_match_wins:
  assumes "i < NumField" and "regexes (fieldName i) = Some rx"
    and "\<forall>x \<in> set pre. fieldCapture rx (TrimSpace x) = None"
    and "fieldCapture rx (TrimSpace l) = Some v"
  shows "getField (versionScan (pre @ [l])) i = v \<and>
     getField (versionScan (pre @ l # post)) i = v \<and>
     v \<noteq> [] \<and>
     (\<exists>matches. FindStringSubmatch rx (TrimSpace l) = Some matches \<and>
        find (\<lambda>m. m \<noteq> []) (map TrimSpace (drop 1 matches)) = Some v) \<and>
     (Split raw newline = pre @ l # post \<and> parseVersionInfo raw = Inr result \<longrightarrow>
        result (fieldName i) = Some v)"
proof -
  have pre: "\<forall>cl \<in> set (map TrimSpace pre). fieldCapture rx cl = None"
    using assms(3) by simp
  have one: "getField (versionScan (pre @ l # ys)) i = v" for ys
    using fieldValue_first [OF assms(2) pre assms(4), of "map TrimSpace ys"] assms(1)
    by (simp add: getField_versionScan)
  have ne: "v \<noteq> []" using assms(4) by (rule fieldCapture_nonempty)
  have grp: "\<exists>matches. FindStringSubmatch rx (TrimSpace l) = Some matches \<and>
        find (\<lambda>m. m \<noteq> []) (map TrimSpace (drop 1 matches)) = Some v"
    using assms(4) by (auto simp: fieldCapture_def firstGroup_def split: option.splits if_splits)
  have res: "result (fieldName i) = Some v"
    if "Split raw newline = pre @ l # post" "parseVersionInfo raw = Inr result"
  proof -
    from that(2) have "result = versionMap (versionScan (Split raw newline))"
      by (auto simp: parseVersionInfo_def Let_def split: if_splits)
    then show ?thesis
      using that(1) one [of post] ne assms(1) by (simp add: versionMap_lookup)
  qed
  from one [of "[]"] one [of post] ne grp res show ?thesis by blast
qed

theorem first_match_wins_witness:
  "(1::nat) < NumField \<and> regexes (fieldName 1) = Some reVersion \<and>
   fieldCapture reVersion (TrimSpace (versionSample ! 0)) = Some ''15.2(4)E'' \<and>
   FindStringSubmatch reVersion (TrimSpace (versionSample ! 2)) =
     Some [''Version 99.9,'', ''99.9'', [], [], [], []] \<and>
   getField (versionScan ([] @ versionSample ! 0 # drop 1 versionSample)) 1 = ''15.2(4)E'' \<and>
   Version (versionScan versionSample) = ''15.2(4)E''"
proof -
  have h1: "(1::nat) < NumField" by (simp add: NumField_def)
  have h2: "regexes (fieldName 1) = Some reVersion" by (rule regexes_Version)
  have h3: "\<forall>x \<in> set []. fieldCapture reVersion (TrimSpace x) = None" by simp
  have h4: "fieldCapture reVersion (TrimSpace (versionSample ! 0)) = Some ''15.2(4)E''"
    by code_simp
  have later: "FindStringSubmatch reVersion (TrimSpace (versionSample ! 2)) =
     Some [''Version 99.9,'', ''99.9'', [], [], [], []]"
    by code_simp
  have c: "getField (versionScan ([] @ versionSample ! 0 # drop 1 versionSample)) 1 = ''15.2(4)E''"
    using first_match_wins [OF h1 h2 h3 h4, of "drop 1 versionSample"] by blast
  have "[] @ versionSample ! 0 # drop 1 versionSample = versionSample"
    by (simp add: versionSample_def)
  with c have "Version (versionScan versionSample) = ''15.2(4)E''"
    by (simp add: Version_getField)
  with h1 h2 h4 later c show ?thesis by blast
qed

text \<open>
  C6 as stated fails where the earlier of two matching lines captures nothing: both lines
  of the sample match the \<open>Restarted\<close> expression, every group of the first match is
  empty, and the field takes its value from the second line.
\<close>

theorem later_match_wins_after_empty_capture:
  "FindStringSubmatch reRestarted (TrimSpace (restartSample ! 0)) =
     Some [''Previous Restart  :'', [], [], []] \<and>
   FindStringSubmatch reRestarted (TrimSpace (restartSample ! 1)) =
     Some [''System restarted at 10:00:00 UTC'', ''10:00:00 UTC'', [], []] \<and>
   regexes ''Restarted'' = Some reRestarted \<and>
   Restarted (versionScan restartSample) = ''10:00:00 UTC''"
proof -
  have "Restarted (versionScan restartSample) = getField (versionScan restartSample) 6"
    by (simp add: getField_def)
  also have "\<dots> = foldl (fieldValue 6) [] (map TrimSpace restartSample)"
    by (simp add: getField_versionScan NumField_def)
  also have "\<dots> = ''10:00:00 UTC''" by code_simp
  finally have r: "Restarted (versionScan restartSample) = ''10:00:00 UTC''" .
  have m0: "FindStringSubmatch reRestarted (TrimSpace (restartSample ! 0)) =
     Some [''Previous Restart  :'', [], [], []]" by code_simp
  have m1: "FindStringSubmatch reRestarted (TrimSpace (restartSample ! 1)) =
     Some [''System restarted at 10:00:00 UTC'', ''10:00:00 UTC'', [], []]" by code_simp
  have t: "regexes ''Restarted'' = Some reRestarted" by (simp add: regexes_def)
  from r m0 m1 t show ?thesis by blast
qed

section \<open>Properties of the record stitchers\<close>







lemma configLoop_append: "configLoop st (xs @ ys) = configLoop (configLoop st xs) ys"
  by (simp add: configLoop_def)









section \<open>Where the normalizer is applied\<close>

text \<open>
  C2, as the code has it. Four of the entry points normalize interface names after
  parsing: \<open>Show_cdp_neighbors\<close> and \<open>Show_lldp_neighbors\<close> the \<open>Interface\<close> and the
  \<open>NeighborInterface\<close> of every record, \<open>Show_interfaces\<close> and \<open>Show_running_config\<close>
  the \<open>Interface\<close> of every record. \<open>Show_interfaces_status\<close>, \<open>Show_vlan\<close> and
  \<open>Show_mac_address_table\<close> return the records of their parsers as they are: the
  \<open>Interface\<close> fields and the port strings are the text the parser extracted.
\<close>

theorem normalizer_call_sites:
  "(parseCdpNeighbors out = Inr cdp \<longrightarrow>
      (\<exists>rs. Show_cdp_neighbors (Inr out) = Inr rs \<and>
         map CdpNeighbor.Interface rs = map (normalizeInterfaceName \<circ> CdpNeighbor.Interface) cdp \<and>
         map CdpNeighbor.NeighborInterface rs =
           map (normalizeInterfaceName \<circ> CdpNeighbor.NeighborInterface) cdp)) \<and>
   (parseLldpNeighbors out = Inr lldp \<longrightarrow>
      (\<exists>rs. Show_lldp_neighbors (Inr out) = Inr rs \<and>
         map LldpNeighbor.Interface rs = map (normalizeInterfaceName \<circ> LldpNeighbor.Interface) lldp \<and>
         map LldpNeighbor.NeighborInterface rs =
           map (normalizeInterfaceName \<circ> LldpNeighbor.NeighborInterface) lldp)) \<and>
   (parseInterfaces out = Inr details \<longrightarrow>
      (\<exists>rs. Show_interfaces (Inr out) = Inr rs \<and>
         map InterfaceDetails.Interface rs =
           map (normalizeInterfaceName \<circ> InterfaceDetails.Interface) details)) \<and>
   (parseInterfaceConfig out = Inr blocks \<longrightarrow>
      (\<exists>rs. Show_running_config (Inr out) = Inr rs \<and>
         map InterfaceConfig.Interface rs =
           map (normalizeInterfaceName \<circ> InterfaceConfig.Interface) blocks)) \<and>
   (parseInterfaceStatus out = Inr statuses \<longrightarrow> Show_interfaces_status (Inr out) = Inr statuses) \<and>
   (parseVlanInfo out = Inr vlans \<longrightarrow> Show_vlan (Inr out) = Inr vlans) \<and>
   (parseMacAddressTable out = Inr macs \<longrightarrow> Show_mac_address_table (Inr out) = Inr macs)"
proof (intro conjI impI)
  assume "parseCdpNeighbors out = Inr cdp"
  then show "\<exists>rs. Show_cdp_neighbors (Inr out) = Inr rs \<and>
         map CdpNeighbor.Interface rs = map (normalizeInterfaceName \<circ> CdpNeighbor.Interface) cdp \<and>
         map CdpNeighbor.NeighborInterface rs =
           map (normalizeInterfaceName \<circ> CdpNeighbor.NeighborInterface) cdp"
    by (simp add: Show_cdp_neighbors_def comp_def)
next
  assume "parseLldpNeighbors out = Inr lldp"
  then show "\<exists>rs. Show_lldp_neighbors (Inr out) = Inr rs \<and>
         map LldpNeighbor.Interface rs = map (normalizeInterfaceName \<circ> LldpNeighbor.Interface) lldp \<and>
         map LldpNeighbor.NeighborInterface rs =
           map (normalizeInterfaceName \<circ> LldpNeighbor.NeighborInterface) lldp"
    by (simp add: Show_lldp_neighbors_def comp_def)
next
  assume "parseInterfaces out = Inr details"
  then show "\<exists>rs. Show_interfaces (Inr out) = Inr rs \<and>
         map InterfaceDetails.Interface rs =
           map (normalizeInterfaceName \<circ> InterfaceDetails.Interface) details"
    by (simp add: Show_interfaces_def comp_def)
next
  assume "parseInterfaceConfig out = Inr blocks"
  then show "\<exists>rs. Show_running_config (Inr out) = Inr rs \<and>
         map InterfaceConfig.Interface rs =
           map (normalizeInterfaceName \<circ> InterfaceConfig.Interface) blocks"
    by (simp add: Show_running_config_def comp_def)
next
  assume "parseInterfaceStatus out = Inr statuses"
  then show "Show_interfaces_status (Inr out) = Inr statuses"
    by (simp add: Show_interfaces_status_def)
next
  assume "parseVlanInfo out = Inr vlans"
  then show "Show_vlan (Inr out) = Inr vlans"
    by (simp add: Show_vlan_def)
next
  assume "parseMacAddressTable out = Inr macs"
  then show "Show_mac_address_table (Inr out) = Inr macs"
    by (simp add: Show_mac_address_table_def)
qed

theorem normalizer_call_sites_witness:
  "(\<exists>cdp rs. parseCdpNeighbors cdpCase1Intrfce = Inr cdp \<and>
      map CdpNeighbor.Interface cdp = [''Gig 1/0/1''] \<and>
      Show_cdp_neighbors (Inr cdpCase1Intrfce) = Inr rs \<and>
      map CdpNeighbor.Interface rs = [''Gi1/0/1''] \<and>
      map CdpNeighbor.NeighborInterface rs = [''Gi1/0/24'']) \<and>
   (\<exists>lldp rs. parseLldpNeighbors (Join lldpSample [newline]) = Inr lldp \<and>
      Show_lldp_neighbors (Inr (Join lldpSample [newline])) = Inr rs \<and>
      map LldpNeighbor.Interface rs = [''Gi1/0/1''] \<and>
      map LldpNeighbor.NeighborInterface rs = [''Gi0/1'']) \<and>
   (\<exists>details rs. parseInterfaces (Join interfacesShort [newline]) = Inr details \<and>
      map InterfaceDetails.Interface details = [''GigabitEthernet1''] \<and>
      Show_interfaces (Inr (Join interfacesShort [newline])) = Inr rs \<and>
      map InterfaceDetails.Interface rs = [''Gi1'']) \<and>
   (\<exists>blocks rs. parseInterfaceConfig (Join configFourLines [newline]) = Inr blocks \<and>
      map InterfaceConfig.Interface blocks = [''GigabitEthernet1/0/1''] \<and>
      Show_running_config (Inr (Join configFourLines [newline])) = Inr rs \<and>
      map InterfaceConfig.Interface rs = [''Gi1/0/1'']) \<and>
   (\<exists>statuses. parseInterfaceStatus (Join statusLongName [newline]) = Inr statuses \<and>
      Show_interfaces_status (Inr (Join statusLongName [newline])) = Inr statuses \<and>
      map InterfaceStatus.Interface statuses = [''GigabitEthernet1/0/1'']) \<and>
   (\<exists>vlans. parseVlanInfo (Join vlanLongName [newline]) = Inr vlans \<and>
      Show_vlan (Inr (Join vlanLongName [newline])) = Inr vlans \<and>
      map Ports vlans = [[''GigabitEthernet1/0/1'', ''Gi1/0/2'']]) \<and>
   (\<exists>macs. parseMacAddressTable (Join macLongName [newline]) = Inr macs \<and>
      Show_mac_address_table (Inr (Join macLongName [newline])) = Inr macs \<and>
      map MacAddressEntry.Interface macs = [''GigabitEthernet1/0/1''])"
proof -
  note t = normalizer_call_sites
  have n1: "normalizeInterfaceName ''Gig 1/0/1'' = ''Gi1/0/1''"
    and n2: "normalizeInterfaceName ''Gig 1/0/24'' = ''Gi1/0/24''"
    and n3: "normalizeInterfaceName ''Gi1/0/1'' = ''Gi1/0/1''"
    and n4: "normalizeInterfaceName ''Gi0/1'' = ''Gi0/1''"
    and n5: "normalizeInterfaceName ''GigabitEthernet1'' = ''Gi1''"
    and n6: "normalizeInterfaceName ''GigabitEthernet1/0/1'' = ''Gi1/0/1''"
    by code_simp+
  let ?cdp = "[\<lparr>Neighbor = ''switch-core.local'', CdpNeighbor.Interface = ''Gig 1/0/1'',
           HoldTime = ''120'', Capability = ''R S I'', Platform = ''WS-C3850'',
           NeighborInterface = ''Gig 1/0/24''\<rparr>]"
  have p1: "parseCdpNeighbors cdpCase1Intrfce = Inr ?cdp" by code_simp
  from t [where out = cdpCase1Intrfce and cdp = "?cdp"] p1
  obtain rs1 where "Show_cdp_neighbors (Inr cdpCase1Intrfce) = Inr rs1"
    and "map CdpNeighbor.Interface rs1 = map (normalizeInterfaceName \<circ> CdpNeighbor.Interface) ?cdp"
    and "map CdpNeighbor.NeighborInterface rs1 =
           map (normalizeInterfaceName \<circ> CdpNeighbor.NeighborInterface) ?cdp"
    by blast
  then
  have a1: "\<exists>cdp rs. parseCdpNeighbors cdpCase1Intrfce = Inr cdp \<and>
      map CdpNeighbor.Interface cdp = [''Gig 1/0/1''] \<and>
      Show_cdp_neighbors (Inr cdpCase1Intrfce) = Inr rs \<and>
      map CdpNeighbor.Interface rs = [''Gi1/0/1''] \<and>
      map CdpNeighbor.NeighborInterface rs = [''Gi1/0/24'']"
    using p1 n1 n2 by (intro exI [of _ "?cdp"] exI [of _ rs1]) simp
  let ?lldp = "[\<lparr>LldpNeighbor.Interface = ''Gi1/0/1'', LldpNeighbor.Neighbor = ''switch-a'',
           LldpNeighbor.NeighborInterface = ''Gi0/1'', LldpNeighbor.HoldTime = ''120'',
           LldpNeighbor.Capability = ''B,R''\<rparr>]"
  have p2: "parseLldpNeighbors (Join lldpSample [newline]) = Inr ?lldp" by code_simp
  from t [where out = "Join lldpSample [newline]" and lldp = "?lldp"] p2
  obtain rs2 where "Show_lldp_neighbors (Inr (Join lldpSample [newline])) = Inr rs2"
    and "map LldpNeighbor.Interface rs2 = map (normalizeInterfaceName \<circ> LldpNeighbor.Interface) ?lldp"
    and "map LldpNeighbor.NeighborInterface rs2 =
           map (normalizeInterfaceName \<circ> LldpNeighbor.NeighborInterface) ?lldp"
    by blast
  then
  have a2: "\<exists>lldp rs. parseLldpNeighbors (Join lldpSample [newline]) = Inr lldp \<and>
      Show_lldp_neighbors (Inr (Join lldpSample [newline])) = Inr rs \<and>
      map LldpNeighbor.Interface rs = [''Gi1/0/1''] \<and>
      map LldpNeighbor.NeighborInterface rs = [''Gi0/1'']"
    using p2 n3 n4 by (intro exI [of _ "?lldp"] exI [of _ rs2]) simp
  obtain details where d: "parseInterfaces (Join interfacesShort [newline]) = Inr details"
    by (simp add: parseInterfaces_def Let_def)
  have "map InterfaceDetails.Interface
      (projr (parseInterfaces (Join interfacesShort [newline]))) = [''GigabitEthernet1'']"
    by code_simp
  with d have d2: "map InterfaceDetails.Interface details = [''GigabitEthernet1'']" by simp
  from t [where out = "Join interfacesShort [newline]" and details = details] d
  obtain rs3 where "Show_interfaces (Inr (Join interfacesShort [newline])) = Inr rs3"
    and "map InterfaceDetails.Interface rs3 =
           map (normalizeInterfaceName \<circ> InterfaceDetails.Interface) details"
    by blast
  then
  have a3: "\<exists>details rs. parseInterfaces (Join interfacesShort [newline]) = Inr details \<and>
      map InterfaceDetails.Interface details = [''GigabitEthernet1''] \<and>
      Show_interfaces (Inr (Join interfacesShort [newline])) = Inr rs \<and>
      map InterfaceDetails.Interface rs = [''Gi1'']"
    using d d2 n5 by (intro exI [of _ details] exI [of _ rs3]) (simp flip: map_map)
  let ?blocks = "[\<lparr>InterfaceConfig.Interface = ''GigabitEthernet1/0/1'',
           ConfigLines = [''interface GigabitEthernet1/0/1'', ''description uplink'',
                          ''switchport mode trunk'', ''no shutdown'']\<rparr>]"
  have p4: "parseInterfaceConfig (Join configFourLines [newline]) = Inr ?blocks" by code_simp
  from t [where out = "Join configFourLines [newline]" and blocks = "?blocks"] p4
  obtain rs4 where "Show_running_config (Inr (Join configFourLines [newline])) = Inr rs4"
    and "map InterfaceConfig.Interface rs4 =
           map (normalizeInterfaceName \<circ> InterfaceConfig.Interface) ?blocks"
    by blast
  then
  have a4: "\<exists>blocks rs. parseInterfaceConfig (Join configFourLines [newline]) = Inr blocks \<and>
      map InterfaceConfig.Interface blocks = [''GigabitEthernet1/0/1''] \<and>
      Show_running_config (Inr (Join configFourLines [newline])) = Inr rs \<and>
      map InterfaceConfig.Interface rs = [''Gi1/0/1'']"
    using p4 n6 by (intro exI [of _ "?blocks"] exI [of _ rs4]) simp
  let ?statuses = "[\<lparr>InterfaceStatus.Interface = ''GigabitEthernet1/0/1'',
           InterfaceStatus.Description = ''uplink'', InterfaceStatus.Status = ''connected'',
           InterfaceStatus.VlanID = ''1'', InterfaceStatus.Duplex = ''full'',
           InterfaceStatus.Speed = ''1000'', InterfaceStatus.Type = ''10/100/1000BaseTX''\<rparr>]"
  have p5: "parseInterfaceStatus (Join statusLongName [newline]) = Inr ?statuses" by code_simp
  from t [where out = "Join statusLongName [newline]" and statuses = "?statuses"] p5
  have "Show_interfaces_status (Inr (Join statusLongName [newline])) = Inr ?statuses" by blast
  then
  have a5: "\<exists>statuses. parseInterfaceStatus (Join statusLongName [newline]) = Inr statuses \<and>
      Show_interfaces_status (Inr (Join statusLongName [newline])) = Inr statuses \<and>
      map InterfaceStatus.Interface statuses = [''GigabitEthernet1/0/1'']"
    using p5 by (intro exI [of _ "?statuses"]) simp
  let ?vlans = "[\<lparr>VLANID = ''10'', VLANName = ''DATA'', VlanInfo.Status = ''active'',
           Ports = [''GigabitEthernet1/0/1'', ''Gi1/0/2'']\<rparr>]"
  have p6: "parseVlanInfo (Join vlanLongName [newline]) = Inr ?vlans" by code_simp
  from t [where out = "Join vlanLongName [newline]" and vlans = "?vlans"] p6
  have "Show_vlan (Inr (Join vlanLongName [newline])) = Inr ?vlans" by blast
  then
  have a6: "\<exists>vlans. parseVlanInfo (Join vlanLongName [newline]) = Inr vlans \<and>
      Show_vlan (Inr (Join vlanLongName [newline])) = Inr vlans \<and>
      map Ports vlans = [[''GigabitEthernet1/0/1'', ''Gi1/0/2'']]"
    using p6 by (intro exI [of _ "?vlans"]) simp
  let ?macs = "[\<lparr>MacAddressEntry.Interface = ''GigabitEthernet1/0/1'',
           MacAddressEntry.MacAddress = ''0011.2233.4455'', MacAddressEntry.VlanID = ''10'',
           MacAddressEntry.Type = ''DYNAMIC''\<rparr>]"
  have p7: "parseMacAddressTable (Join macLongName [newline]) = Inr ?macs" by code_simp
  from t [where out = "Join macLongName [newline]" and macs = "?macs"] p7
  have "Show_mac_address_table (Inr (Join macLongName [newline])) = Inr ?macs" by blast
  then
  have a7: "\<exists>macs. parseMacAddressTable (Join macLongName [newline]) = Inr macs \<and>
      Show_mac_address_table (Inr (Join macLongName [newline])) = Inr macs \<and>
      map MacAddressEntry.Interface macs = [''GigabitEthernet1/0/1'']"
    using p7 by (intro exI [of _ "?macs"]) simp
  from a1 a2 a3 a4 a5 a6 a7 show ?thesis by blast
qed

text \<open>
  C2 as stated fails for the three entry points it names: where the blob writes
  \<open>GigabitEthernet1/0/1\<close>, the record keeps that text, which the normalizer would turn
  into \<open>Gi1/0/1\<close>.
\<close>

theorem status_vlan_mac_not_normalized:
  "normalizeInterfaceName ''GigabitEthernet1/0/1'' = ''Gi1/0/1'' \<and>
   Show_interfaces_status (Inr (Join statusLongName [newline])) =
     Inr [\<lparr>InterfaceStatus.Interface = ''GigabitEthernet1/0/1'',
           InterfaceStatus.Description = ''uplink'', InterfaceStatus.Status = ''connected'',
           InterfaceStatus.VlanID = ''1'', InterfaceStatus.Duplex = ''full'',
           InterfaceStatus.Speed = ''1000'', InterfaceStatus.Type = ''10/100/1000BaseTX''\<rparr>] \<and>
   Show_vlan (Inr (Join vlanLongName [newline])) =
     Inr [\<lparr>VLANID = ''10'', VLANName = ''DATA'', VlanInfo.Status = ''active'',
           Ports = [''GigabitEthernet1/0/1'', ''Gi1/0/2'']\<rparr>] \<and>
   Show_mac_address_table (Inr (Join macLongName [newline])) =
     Inr [\<lparr>MacAddressEntry.Interface = ''GigabitEthernet1/0/1'',
           MacAddressEntry.MacAddress = ''0011.2233.4455'', MacAddressEntry.VlanID = ''10'',
           MacAddressEntry.Type = ''DYNAMIC''\<rparr>]"
  by code_simp

end
